theory Spec2Isabelle
  imports Main "HOL-Library.Word"
begin

unbundle bit_operations_syntax

section \<open>MPU gyroscope and accelerometer: detection, latch and sample reads\<close>

text \<open>
  A shallow embedding of \<^verbatim>\<open>src/main/drivers/accgyro_mpu.c\<close>. Every C function of the
  file that the properties below speak about is one HOL definition of the same name.
  The device structures are records, the enumerations are datatypes, function pointers
  are values of a datatype of the routines the file installs (\<open>None\<close> is the null
  pointer), and the bus is an explicit log of the calls made to the outside, answered
  by the platform.
\<close>

subsection \<open>C types\<close>

type_synonym uint8_t = "8 word"
type_synonym int16_t = "16 word"

text \<open>\<^verbatim>\<open>int\<close> on the 32-bit targets: the type every \<^verbatim>\<open>uint8_t\<close> operand is promoted to
  before \<^verbatim>\<open>&\<close>, \<^verbatim>\<open>|\<close> and \<^verbatim>\<open><<\<close>.\<close>

type_synonym c_int = "32 word"

definition promote :: "uint8_t \<Rightarrow> c_int" where
  "promote b = ucast b"

text \<open>The conversions of an \<^verbatim>\<open>int\<close> back to \<^verbatim>\<open>uint8_t\<close> (on assignment) and to
  \<^verbatim>\<open>int16_t\<close> (the cast of the sample decoders): the low bits are kept.\<close>

definition to_uint8 :: "c_int \<Rightarrow> uint8_t" where
  "to_uint8 v = ucast v"

definition to_int16 :: "c_int \<Rightarrow> int16_t" where
  "to_int16 v = ucast v"

subsection \<open>Constants defined in the file\<close>

definition MPU_ADDRESS :: uint8_t where
  "MPU_ADDRESS = 0x68"

definition MPU6500_WHO_AM_I_CONST :: c_int where
  "MPU6500_WHO_AM_I_CONST = 0x70"

definition MPUx0x0_WHO_AM_I_CONST :: c_int where
  "MPUx0x0_WHO_AM_I_CONST = 0x68"

definition MPU_INQUIRY_MASK :: c_int where
  "MPU_INQUIRY_MASK = 0x7E"

subsection \<open>Declarations of the headers\<close>

text \<open>Modelled from the spec: the enumerations \<^verbatim>\<open>detectedMPUSensor_e\<close> (SensorVariant)
  and \<^verbatim>\<open>mpu6050Resolution_e\<close> (ResolutionClass) are declared in \<^verbatim>\<open>accgyro_mpu.h\<close>, which
  is not among the sources. The constructors are the enumerators the file assigns, and
  \<open>MPU_NONE\<close> is the Unknown sentinel of a device no probe has claimed.\<close>

datatype detectedMPUSensor_e =
    MPU_NONE
  | MPU_3050
  | MPU_60x0
  | MPU_60x0_SPI
  | MPU_65xx_I2C
  | MPU_65xx_SPI
  | MPU_9250_SPI
  | ICM_20608_SPI
  | ICM_20689_SPI

datatype mpu6050Resolution_e = MPU_HALF_RESOLUTION | MPU_FULL_RESOLUTION

text \<open>Modelled from the spec: the reasons of the fatal-failure escalation primitive are
  declared outside the sources; \<open>FAILURE_ACC_INCOMPATIBLE\<close>, unsupported hardware, is
  the only one the file reports.\<close>

datatype failureMode_e = FAILURE_ACC_INCOMPATIBLE

text \<open>Modelled from the spec: the axis indices \<open>X\<close>, \<open>Y\<close>, \<open>Z\<close> of the raw 3-axis sample
  buffers are declared outside the sources. An array of fixed size indexed by an
  enumeration is a total function from it.\<close>

datatype axis = X | Y | Z

text \<open>Modelled from the spec: the function-pointer types of the dispatch table
  (register-burst-read, single-register-write, reset) are declared outside the sources.
  A value names the routine it points to; the routines are those the file stores into a
  dispatch table. Only \<^verbatim>\<open>mpuReadRegisterI2C\<close> and \<^verbatim>\<open>mpuWriteRegisterI2C\<close> are defined in
  the file, the others belong to the SPI drivers.\<close>

datatype mpuReadRegisterFunc =
    Fn_mpuReadRegisterI2C
  | Fn_mpu6000ReadRegister
  | Fn_mpu6500ReadRegister
  | Fn_mpu9250ReadRegister
  | Fn_mpu9250SlowReadRegister
  | Fn_icm20689ReadRegister

datatype mpuWriteRegisterFunc =
    Fn_mpuWriteRegisterI2C
  | Fn_mpu6000WriteRegister
  | Fn_mpu6500WriteRegister
  | Fn_mpu9250WriteRegister
  | Fn_verifympu9250WriteRegister
  | Fn_icm20689WriteRegister

datatype mpuResetFuncPtr = Fn_mpu9250ResetGyro

text \<open>Modelled from the spec: the optional client callback invoked on each ready edge.
  It is any routine of the client: it is named by a number, and the platform says what
  the routine with that number does.\<close>

type_synonym sensorGyroUpdateFuncPtr = nat

text \<open>Modelled from the spec: the DispatchTable (\<^verbatim>\<open>mpuConfiguration_t\<close>) and the detection
  result (\<^verbatim>\<open>mpuDetectionResult_t\<close>) are declared in \<^verbatim>\<open>accgyro_mpu.h\<close>, not among the
  sources. The fields are those the file assigns.\<close>

record mpuConfiguration_t =
  gyroReadXRegister :: uint8_t
  readFn :: "mpuReadRegisterFunc option"
  writeFn :: "mpuWriteRegisterFunc option"
  slowreadFn :: "mpuReadRegisterFunc option"
  verifywriteFn :: "mpuWriteRegisterFunc option"
  resetFn :: "mpuResetFuncPtr option"

record mpuDetectionResult_t =
  sensor :: detectedMPUSensor_e
  resolution :: mpu6050Resolution_e

text \<open>Modelled from the spec: GyroDevice and AccelDevice (\<^verbatim>\<open>gyroDev_t\<close>, \<^verbatim>\<open>accDev_t\<close>)
  are declared outside the sources. The fields are those the functions below read or
  write: the dispatch table, the detection result, the data-ready latch, the update
  callback and the raw samples. (The interrupt line configuration and the EXTI callback
  record are used by \<^verbatim>\<open>mpuIntExtiInit\<close> only, which configures the interrupt controller.)
  The accelerometer's \<^verbatim>\<open>mpuConfiguration\<close> is the field \<open>acc_mpuConfiguration\<close>: two
  records cannot share a field name.\<close>

record gyroDev_t =
  mpuConfiguration :: mpuConfiguration_t
  mpuDetectionResult :: mpuDetectionResult_t
  dataReady :: bool
  update :: "sensorGyroUpdateFuncPtr option"
  gyroADCRaw :: "axis \<Rightarrow> int16_t"

record accDev_t =
  acc_mpuConfiguration :: mpuConfiguration_t
  ADCRaw :: "axis \<Rightarrow> int16_t"

subsection \<open>The outside: bus, probes, callback\<close>

datatype spiProbe =
    mpu6000SpiDetect
  | mpu6500SpiDetect
  | mpu9250SpiDetect
  | icm20608SpiDetect
  | icm20689SpiDetect

text \<open>Every call that leaves the file is logged, in order: the settle delay, a read on
  the I2C bus (bus instance, device address, register, length), a read through a
  routine of an SPI driver, a probe of an SPI driver, a call of the update callback.\<close>

datatype event =
    DELAY nat
  | I2C_READ nat uint8_t uint8_t uint8_t
  | REG_READ mpuReadRegisterFunc uint8_t uint8_t
  | SPI_DETECT spiProbe
  | UPDATE_CALL sensorGyroUpdateFuncPtr

type_synonym world = "event list"

text \<open>A read returns the acknowledgement and the contents of the caller's buffer after
  the call, byte by index. The buffers are uninitialised locals, so after a read that
  was not acknowledged their contents are whatever the platform says, too.\<close>

type_synonym readResult = "bool \<times> (nat \<Rightarrow> uint8_t)"

text \<open>The platform: what the file takes from outside. First the build configuration
  (the macros tested by \<^verbatim>\<open>#ifdef\<close>), then the register addresses and the bus instance
  (macros of the headers and of the target, not among the sources, so they are
  parameters here), then the external collaborators. A collaborator answers from the history of all
  earlier calls, so the same read may be answered differently at different times.\<close>

record platform =
  USE_I2C :: bool
  USE_SPI :: bool
  USE_GYRO_SPI_MPU6000 :: bool
  USE_GYRO_SPI_MPU6500 :: bool
  USE_GYRO_SPI_MPU9250 :: bool
  USE_GYRO_SPI_ICM20608 :: bool
  USE_GYRO_SPI_ICM20689 :: bool
  MPU_I2C_INSTANCE :: nat
  MPU_RA_XA_OFFS_H :: uint8_t
  MPU_RA_PRODUCT_ID :: uint8_t
  MPU_RA_WHO_AM_I :: uint8_t
  MPU_RA_WHO_AM_I_LEGACY :: uint8_t
  MPU_RA_GYRO_XOUT_H :: uint8_t
  MPU_RA_ACCEL_XOUT_H :: uint8_t
  MPU3050_GYRO_OUT :: uint8_t
  i2cRead :: "world \<Rightarrow> nat \<Rightarrow> uint8_t \<Rightarrow> uint8_t \<Rightarrow> uint8_t \<Rightarrow> readResult"
  spiRead :: "world \<Rightarrow> mpuReadRegisterFunc \<Rightarrow> uint8_t \<Rightarrow> uint8_t \<Rightarrow> readResult"
  spiDetect :: "world \<Rightarrow> spiProbe \<Rightarrow> bool"
  updateFn :: "world \<Rightarrow> sensorGyroUpdateFuncPtr \<Rightarrow> gyroDev_t \<Rightarrow> gyroDev_t"

text \<open>How a call ends that does not return normally: \<^verbatim>\<open>failureMode\<close> was called, or a
  null function pointer was called. Both carry the state at that moment.\<close>

datatype fault = FAILURE_MODE failureMode_e | NULL_FUNCTION_CALL

subsection \<open>Register reads\<close>

definition mpuReadRegisterI2C :: "platform \<Rightarrow> world \<Rightarrow> uint8_t \<Rightarrow> uint8_t \<Rightarrow> world \<times> readResult" where
  "mpuReadRegisterI2C P w reg len =
     (w @ [I2C_READ (MPU_I2C_INSTANCE P) MPU_ADDRESS reg len],
      i2cRead P w (MPU_I2C_INSTANCE P) MPU_ADDRESS reg len)"

text \<open>A call through \<^verbatim>\<open>mpuConfiguration.readFn\<close>.\<close>

fun call_readFn :: "platform \<Rightarrow> world \<Rightarrow> mpuReadRegisterFunc \<Rightarrow> uint8_t \<Rightarrow> uint8_t \<Rightarrow> world \<times> readResult" where
  "call_readFn P w Fn_mpuReadRegisterI2C reg len = mpuReadRegisterI2C P w reg len"
| "call_readFn P w f reg len = (w @ [REG_READ f reg len], spiRead P w f reg len)"

definition call_spiDetect :: "platform \<Rightarrow> world \<Rightarrow> spiProbe \<Rightarrow> world \<times> bool" where
  "call_spiDetect P w p = (w @ [SPI_DETECT p], spiDetect P w p)"

subsection \<open>mpu6050FindRevision\<close>

text \<open>\<^verbatim>\<open>((readBuffer[5] & 0x01) << 2) | ((readBuffer[3] & 0x01) << 1) | (readBuffer[1] & 0x01)\<close>,
  computed in \<^verbatim>\<open>int\<close> and stored into the \<^verbatim>\<open>uint8_t revision\<close>.\<close>

definition revision_of :: "(nat \<Rightarrow> uint8_t) \<Rightarrow> uint8_t" where
  "revision_of readBuffer =
     to_uint8 (push_bit 2 (promote (readBuffer 5) AND 0x01)
               OR push_bit 1 (promote (readBuffer 3) AND 0x01)
               OR (promote (readBuffer 1) AND 0x01))"

definition set_resolution :: "mpu6050Resolution_e \<Rightarrow> gyroDev_t \<Rightarrow> gyroDev_t" where
  "set_resolution r gyro =
     gyro\<lparr>mpuDetectionResult := (mpuDetectionResult gyro)\<lparr>resolution := r\<rparr>\<rparr>"

definition set_sensor :: "detectedMPUSensor_e \<Rightarrow> gyroDev_t \<Rightarrow> gyroDev_t" where
  "set_sensor s gyro =
     gyro\<lparr>mpuDetectionResult := (mpuDetectionResult gyro)\<lparr>sensor := s\<rparr>\<rparr>"

type_synonym 'a outcome = "(fault \<times> world \<times> gyroDev_t) + 'a"

text \<open>Modelled from the spec: \<^verbatim>\<open>failureMode\<close> is the fatal-failure escalation primitive
  of the system, not among the sources; it halts normal operation, so the call is the
  end of the run (\<open>Inl\<close>), with the state as it is at the call.\<close>

definition failureMode :: "failureMode_e \<Rightarrow> world \<Rightarrow> gyroDev_t \<Rightarrow> 'a outcome" where
  "failureMode m w gyro = Inl (FAILURE_MODE m, w, gyro)"

definition mpu6050FindRevision :: "platform \<Rightarrow> world \<Rightarrow> gyroDev_t \<Rightarrow> (world \<times> gyroDev_t) outcome" where
  "mpu6050FindRevision P w gyro =
     (case readFn (mpuConfiguration gyro) of
        None \<Rightarrow> Inl (NULL_FUNCTION_CALL, w, gyro)
      | Some rf \<Rightarrow>
          (case call_readFn P w rf (MPU_RA_XA_OFFS_H P) 6 of
             (w1, ack, readBuffer) \<Rightarrow>
               let revision = revision_of readBuffer in
               if revision \<noteq> 0 then
                 if revision = 1 then Inr (w1, set_resolution MPU_HALF_RESOLUTION gyro)
                 else if revision = 2 then Inr (w1, set_resolution MPU_FULL_RESOLUTION gyro)
                 else if revision = 3 \<or> revision = 7 then
                   Inr (w1, set_resolution MPU_FULL_RESOLUTION gyro)
                 else failureMode FAILURE_ACC_INCOMPATIBLE w1 gyro
               else
                 (case call_readFn P w1 rf (MPU_RA_PRODUCT_ID P) 1 of
                    (w2, ack, productId) \<Rightarrow>
                      let revision = to_uint8 (promote (productId 0) AND 0x0F) in
                      if revision = 0 then failureMode FAILURE_ACC_INCOMPATIBLE w2 gyro
                      else if revision = 4 then
                        Inr (w2, set_resolution MPU_HALF_RESOLUTION gyro)
                      else Inr (w2, set_resolution MPU_FULL_RESOLUTION gyro))))"

subsection \<open>The data-ready latch\<close>

text \<open>The interrupt service routine (the diagnostic timing under
  \<^verbatim>\<open>DEBUG_MPU_DATA_READY_INTERRUPT\<close> is compiled out: its \<^verbatim>\<open>#define\<close> is commented
  out). The callback receives the device itself, with the latch already set, and what
  it leaves is the device after the interrupt.\<close>

definition mpuIntExtiHandler :: "platform \<Rightarrow> world \<Rightarrow> gyroDev_t \<Rightarrow> world \<times> gyroDev_t" where
  "mpuIntExtiHandler P w gyro =
     (let gyro1 = gyro\<lparr>dataReady := True\<rparr> in
      case update gyro1 of
        None \<Rightarrow> (w, gyro1)
      | Some f \<Rightarrow> (w @ [UPDATE_CALL f], updateFn P w f gyro1))"

definition mpuGyroSetIsrUpdate :: "gyroDev_t \<Rightarrow> sensorGyroUpdateFuncPtr option \<Rightarrow> gyroDev_t" where
  "mpuGyroSetIsrUpdate gyro fn = gyro\<lparr>update := fn\<rparr>"

definition mpuCheckDataReady :: "gyroDev_t \<Rightarrow> bool \<times> gyroDev_t" where
  "mpuCheckDataReady gyro =
     (if dataReady gyro then (True, gyro\<lparr>dataReady := False\<rparr>) else (False, gyro))"

subsection \<open>Sample reads\<close>

text \<open>\<^verbatim>\<open>(int16_t)((data[0] << 8) | data[1])\<close>: both bytes are promoted to \<^verbatim>\<open>int\<close>.\<close>

definition decode16 :: "uint8_t \<Rightarrow> uint8_t \<Rightarrow> int16_t" where
  "decode16 hi lo = to_int16 (push_bit 8 (promote hi) OR promote lo)"

definition decode_xyz :: "(nat \<Rightarrow> uint8_t) \<Rightarrow> (axis \<Rightarrow> int16_t) \<Rightarrow> (axis \<Rightarrow> int16_t)" where
  "decode_xyz data raw =
     raw(X := decode16 (data 0) (data 1),
         Y := decode16 (data 2) (data 3),
         Z := decode16 (data 4) (data 5))"

definition mpuAccRead :: "platform \<Rightarrow> world \<Rightarrow> accDev_t \<Rightarrow> (fault \<times> world \<times> accDev_t) + (world \<times> accDev_t \<times> bool)" where
  "mpuAccRead P w acc =
     (case readFn (acc_mpuConfiguration acc) of
        None \<Rightarrow> Inl (NULL_FUNCTION_CALL, w, acc)
      | Some rf \<Rightarrow>
          (case call_readFn P w rf (MPU_RA_ACCEL_XOUT_H P) 6 of
             (w1, ack, data) \<Rightarrow>
               if \<not> ack then Inr (w1, acc, False)
               else Inr (w1, acc\<lparr>ADCRaw := decode_xyz data (ADCRaw acc)\<rparr>, True)))"

definition mpuGyroRead :: "platform \<Rightarrow> world \<Rightarrow> gyroDev_t \<Rightarrow> (world \<times> gyroDev_t \<times> bool) outcome" where
  "mpuGyroRead P w gyro =
     (case readFn (mpuConfiguration gyro) of
        None \<Rightarrow> Inl (NULL_FUNCTION_CALL, w, gyro)
      | Some rf \<Rightarrow>
          (case call_readFn P w rf (gyroReadXRegister (mpuConfiguration gyro)) 6 of
             (w1, ack, data) \<Rightarrow>
               if \<not> ack then Inr (w1, gyro, False)
               else Inr (w1, gyro\<lparr>gyroADCRaw := decode_xyz data (gyroADCRaw gyro)\<rparr>, True)))"

subsection \<open>Detection\<close>

text \<open>What a claiming SPI probe installs: the variant, the standard gyroscope register
  and the driver's read and write routines.\<close>

definition install_spi :: "platform \<Rightarrow> detectedMPUSensor_e \<Rightarrow> mpuReadRegisterFunc \<Rightarrow> mpuWriteRegisterFunc \<Rightarrow> gyroDev_t \<Rightarrow> gyroDev_t" where
  "install_spi P s rdf wrf gyro =
     (set_sensor s gyro)\<lparr>mpuConfiguration :=
        (mpuConfiguration gyro)\<lparr>gyroReadXRegister := MPU_RA_GYRO_XOUT_H P,
                                 readFn := Some rdf, writeFn := Some wrf\<rparr>\<rparr>"

text \<open>A probe that is compiled out is not called and claims nothing.\<close>

definition probe_if :: "bool \<Rightarrow> platform \<Rightarrow> world \<Rightarrow> spiProbe \<Rightarrow> world \<times> bool" where
  "probe_if enabled P w p = (if enabled then call_spiDetect P w p else (w, False))"

text \<open>The probes in the order of the file. The MPU9250 branch installs three more
  routines. The ICM20608 branch assigns to \<^verbatim>\<open>mpuDetectionResult\<close> and
  \<^verbatim>\<open>mpuConfiguration\<close> without \<^verbatim>\<open>gyro->\<close>, that is, to objects that are not fields of
  the device: the device is returned as it was.\<close>

definition detectSPISensorsAndUpdateDetectionResult :: "platform \<Rightarrow> world \<Rightarrow> gyroDev_t \<Rightarrow> world \<times> gyroDev_t \<times> bool" where
  "detectSPISensorsAndUpdateDetectionResult P w gyro =
     (case probe_if (USE_GYRO_SPI_MPU6000 P) P w mpu6000SpiDetect of
        (w1, True) \<Rightarrow>
          (w1, install_spi P MPU_60x0_SPI Fn_mpu6000ReadRegister Fn_mpu6000WriteRegister gyro, True)
      | (w1, False) \<Rightarrow>
     (case probe_if (USE_GYRO_SPI_MPU6500 P) P w1 mpu6500SpiDetect of
        (w2, True) \<Rightarrow>
          (w2, install_spi P MPU_65xx_SPI Fn_mpu6500ReadRegister Fn_mpu6500WriteRegister gyro, True)
      | (w2, False) \<Rightarrow>
     (case probe_if (USE_GYRO_SPI_MPU9250 P) P w2 mpu9250SpiDetect of
        (w3, True) \<Rightarrow>
          (let g = install_spi P MPU_9250_SPI Fn_mpu9250ReadRegister Fn_mpu9250WriteRegister gyro
           in (w3, g\<lparr>mpuConfiguration :=
                       (mpuConfiguration g)\<lparr>slowreadFn := Some Fn_mpu9250SlowReadRegister,
                                            verifywriteFn := Some Fn_verifympu9250WriteRegister,
                                            resetFn := Some Fn_mpu9250ResetGyro\<rparr>\<rparr>, True))
      | (w3, False) \<Rightarrow>
     (case probe_if (USE_GYRO_SPI_ICM20608 P) P w3 icm20608SpiDetect of
        (w4, True) \<Rightarrow> (w4, gyro, True)
      | (w4, False) \<Rightarrow>
     (case probe_if (USE_GYRO_SPI_ICM20689 P) P w4 icm20689SpiDetect of
        (w5, True) \<Rightarrow>
          (w5, install_spi P ICM_20689_SPI Fn_icm20689ReadRegister Fn_icm20689WriteRegister gyro, True)
      | (w5, False) \<Rightarrow> (w5, gyro, False))))))"

text \<open>The identity probe on the primary transport: without \<^verbatim>\<open>USE_I2C\<close> nothing is
  read, \<^verbatim>\<open>sig = 0\<close> and \<^verbatim>\<open>ack = false\<close>.\<close>

definition probe_who_am_i :: "platform \<Rightarrow> world \<Rightarrow> world \<times> readResult" where
  "probe_who_am_i P w =
     (if USE_I2C P then mpuReadRegisterI2C P w (MPU_RA_WHO_AM_I P) 1
      else (w, False, \<lambda>_. 0))"

definition mpuDetect :: "platform \<Rightarrow> world \<Rightarrow> gyroDev_t \<Rightarrow> (world \<times> gyroDev_t) outcome" where
  "mpuDetect P w gyro =
     (case probe_who_am_i P (w @ [DELAY 35]) of
        (w1, ack, sig) \<Rightarrow>
          if ack then
            let gyro1 = gyro\<lparr>mpuConfiguration :=
                          (mpuConfiguration gyro)\<lparr>readFn := Some Fn_mpuReadRegisterI2C,
                                                   writeFn := Some Fn_mpuWriteRegisterI2C\<rparr>\<rparr>;
                gyro2 = gyro1\<lparr>mpuConfiguration :=
                          (mpuConfiguration gyro1)\<lparr>gyroReadXRegister := MPU_RA_GYRO_XOUT_H P\<rparr>\<rparr>
            in (case mpuReadRegisterI2C P w1 (MPU_RA_WHO_AM_I_LEGACY P) 1 of
                  (w2, ack2, inquiry) \<Rightarrow>
                    let inquiryResult = to_uint8 (promote (inquiry 0) AND MPU_INQUIRY_MASK) in
                    if ack2 \<and> promote inquiryResult = MPUx0x0_WHO_AM_I_CONST then
                      Inr (w2, (set_sensor MPU_3050 gyro2)\<lparr>mpuConfiguration :=
                             (mpuConfiguration gyro2)\<lparr>gyroReadXRegister := MPU3050_GYRO_OUT P\<rparr>\<rparr>)
                    else
                      let sig1 = to_uint8 (promote (sig 0) AND MPU_INQUIRY_MASK) in
                      if promote sig1 = MPUx0x0_WHO_AM_I_CONST then
                        mpu6050FindRevision P w2 (set_sensor MPU_60x0 gyro2)
                      else if promote sig1 = MPU6500_WHO_AM_I_CONST then
                        Inr (w2, set_sensor MPU_65xx_I2C gyro2)
                      else Inr (w2, gyro2))
          else if USE_SPI P then
            (case detectSPISensorsAndUpdateDetectionResult P w1 gyro of
               (w2, gyro1, detectedSpiSensor) \<Rightarrow> Inr (w2, gyro1))
          else Inr (w1, gyro))"

text \<open>The state a run ends in, returned or halted.\<close>

fun final_state :: "(world \<times> gyroDev_t) outcome \<Rightarrow> world \<times> gyroDev_t" where
  "final_state (Inl (f, s)) = s"
| "final_state (Inr s) = s"

subsection \<open>The properties' vocabulary\<close>

text \<open>The 3-bit revision code as the specification words it: bit 2 is the low bit of
  byte 5, bit 1 the low bit of byte 3, bit 0 the low bit of byte 1.\<close>

definition revision_code :: "(nat \<Rightarrow> uint8_t) \<Rightarrow> nat" where
  "revision_code readBuffer =
     4 * (unat (readBuffer 5) mod 2) + 2 * (unat (readBuffer 3) mod 2) + unat (readBuffer 1) mod 2"

definition low_nibble :: "uint8_t \<Rightarrow> nat" where
  "low_nibble b = unat b mod 16"

text \<open>The specification's table for a nonzero revision code and for the fallback
  nibble; \<open>None\<close> is the fatal unsupported-hardware failure.\<close>

definition classify_code :: "nat \<Rightarrow> mpu6050Resolution_e option" where
  "classify_code c =
     (if c = 1 then Some MPU_HALF_RESOLUTION
      else if c = 2 \<or> c = 3 \<or> c = 7 then Some MPU_FULL_RESOLUTION
      else None)"

definition classify_nibble :: "nat \<Rightarrow> mpu6050Resolution_e option" where
  "classify_nibble n =
     (if n = 0 then None
      else if n = 4 then Some MPU_HALF_RESOLUTION
      else Some MPU_FULL_RESOLUTION)"

text \<open>The verdict of the two tiers together: the table of the code when the code is
  nonzero, the table of the product identifier's low nibble otherwise.\<close>

definition revision_verdict :: "(nat \<Rightarrow> uint8_t) \<Rightarrow> uint8_t \<Rightarrow> mpu6050Resolution_e option" where
  "revision_verdict readBuffer productId =
     (if revision_code readBuffer \<noteq> 0 then classify_code (revision_code readBuffer)
      else classify_nibble (low_nibble productId))"

text \<open>The event a call through a read routine logs.\<close>

fun read_event :: "platform \<Rightarrow> mpuReadRegisterFunc \<Rightarrow> uint8_t \<Rightarrow> uint8_t \<Rightarrow> event" where
  "read_event P Fn_mpuReadRegisterI2C reg len = I2C_READ (MPU_I2C_INSTANCE P) MPU_ADDRESS reg len"
| "read_event P f reg len = REG_READ f reg len"

text \<open>An invocation of revision classification shows in the log as its 6-byte burst at
  \<^verbatim>\<open>MPU_RA_XA_OFFS_H\<close>, whatever read routine it goes through.\<close>

fun revision_burst :: "platform \<Rightarrow> event \<Rightarrow> bool" where
  "revision_burst P (I2C_READ i a reg len) = (reg = MPU_RA_XA_OFFS_H P \<and> len = 6)"
| "revision_burst P (REG_READ f reg len) = (reg = MPU_RA_XA_OFFS_H P \<and> len = 6)"
| "revision_burst P e = False"

definition revision_bursts :: "platform \<Rightarrow> world \<Rightarrow> world \<Rightarrow> nat" where
  "revision_bursts P w w' = length (filter (revision_burst P) (drop (length w) w'))"

text \<open>The device after the primary transport has answered: its read and write routines
  and the standard gyroscope register are installed.\<close>

definition with_i2c_dispatch :: "platform \<Rightarrow> gyroDev_t \<Rightarrow> gyroDev_t" where
  "with_i2c_dispatch P gyro =
     gyro\<lparr>mpuConfiguration :=
       (mpuConfiguration gyro)\<lparr>readFn := Some Fn_mpuReadRegisterI2C,
                                writeFn := Some Fn_mpuWriteRegisterI2C,
                                gyroReadXRegister := MPU_RA_GYRO_XOUT_H P\<rparr>\<rparr>"

text \<open>A signed 16-bit big-endian value: the first byte is the high one, and values
  from 32768 on stand for the negative numbers.\<close>

definition be_s16 :: "uint8_t \<Rightarrow> uint8_t \<Rightarrow> int" where
  "be_s16 hi lo = (let v = 256 * uint hi + uint lo in if v < 32768 then v else v - 65536)"

text \<open>The latch of the specification: two states, an edge makes it \<open>Ready\<close>, a consume
  answers whether it was \<open>Ready\<close> and makes it \<open>Idle\<close>.\<close>

datatype latch = Idle | Ready

datatype latchOp = OnEdge | Consume

fun latch_spec :: "latch \<Rightarrow> latchOp list \<Rightarrow> bool list \<times> latch" where
  "latch_spec l [] = ([], l)"
| "latch_spec l (OnEdge # ops) = latch_spec Ready ops"
| "latch_spec Idle (Consume # ops) =
     (case latch_spec Idle ops of (rets, l') \<Rightarrow> (False # rets, l'))"
| "latch_spec Ready (Consume # ops) =
     (case latch_spec Idle ops of (rets, l') \<Rightarrow> (True # rets, l'))"

definition latch_of :: "gyroDev_t \<Rightarrow> latch" where
  "latch_of gyro = (if dataReady gyro then Ready else Idle)"

text \<open>A sequence of latch operations on the device, each run to its end before the
  next: an edge is a run of the interrupt service routine, a consume is a call of
  \<^verbatim>\<open>mpuCheckDataReady\<close>. The result is what the consumes returned, in order, and the
  device at the end.\<close>

fun run_latch :: "platform \<Rightarrow> world \<Rightarrow> gyroDev_t \<Rightarrow> latchOp list \<Rightarrow> bool list \<times> gyroDev_t" where
  "run_latch P w gyro [] = ([], gyro)"
| "run_latch P w gyro (OnEdge # ops) =
     (case mpuIntExtiHandler P w gyro of (w', gyro') \<Rightarrow> run_latch P w' gyro' ops)"
| "run_latch P w gyro (Consume # ops) =
     (case mpuCheckDataReady gyro of
        (ret, gyro') \<Rightarrow> (case run_latch P w gyro' ops of (rets, g) \<Rightarrow> (ret # rets, g)))"

text \<open>A set of update callbacks that never clear a set latch and, run on a device that
  has one of them installed, leave one of them (or none) installed: the callbacks a
  device can ever have, once it has one of them.\<close>

definition keeps_latch :: "platform \<Rightarrow> sensorGyroUpdateFuncPtr set \<Rightarrow> bool" where
  "keeps_latch P S =
     (\<forall>f\<in>S. \<forall>h d. update d = Some f \<and> dataReady d \<longrightarrow>
        dataReady (updateFn P h f d) \<and> (\<forall>g. update (updateFn P h f d) = Some g \<longrightarrow> g \<in> S))"

text \<open>The fields the interrupt is not to touch.\<close>

definition frame :: "gyroDev_t \<Rightarrow> mpuConfiguration_t \<times> mpuDetectionResult_t \<times> (axis \<Rightarrow> int16_t)" where
  "frame gyro = (mpuConfiguration gyro, mpuDetectionResult gyro, gyroADCRaw gyro)"

text \<open>The same platform with the acknowledgement of every register read replaced: the
  reads return what \<open>a\<close> says from the history, the buffers are filled as before.\<close>

definition override_acks :: "(world \<Rightarrow> bool) \<Rightarrow> platform \<Rightarrow> platform" where
  "override_acks a P =
     P\<lparr>i2cRead := (\<lambda>h i addr reg len. (a h, snd (i2cRead P h i addr reg len))),
       spiRead := (\<lambda>h f reg len. (a h, snd (spiRead P h f reg len)))\<rparr>"

subsection \<open>Simulated hardware\<close>

text \<open>A platform with both transports and every SPI probe compiled in, the register
  addresses of the MPU register map, an I2C bus that answers every read with the given
  acknowledgement and the contents of a register file, SPI drivers that find nothing,
  and one update callback.\<close>

definition sim_platform :: "bool \<Rightarrow> (uint8_t \<Rightarrow> nat \<Rightarrow> uint8_t) \<Rightarrow> (gyroDev_t \<Rightarrow> gyroDev_t) \<Rightarrow> platform" where
  "sim_platform ack regs cb =
     \<lparr>USE_I2C = True, USE_SPI = True,
      USE_GYRO_SPI_MPU6000 = True, USE_GYRO_SPI_MPU6500 = True, USE_GYRO_SPI_MPU9250 = True,
      USE_GYRO_SPI_ICM20608 = True, USE_GYRO_SPI_ICM20689 = True,
      MPU_I2C_INSTANCE = 0,
      MPU_RA_XA_OFFS_H = 0x06, MPU_RA_PRODUCT_ID = 0x0C, MPU_RA_WHO_AM_I = 0x75,
      MPU_RA_WHO_AM_I_LEGACY = 0x00, MPU_RA_GYRO_XOUT_H = 0x43, MPU_RA_ACCEL_XOUT_H = 0x3B,
      MPU3050_GYRO_OUT = 0x1D,
      i2cRead = (\<lambda>h i a reg len. (ack, regs reg)),
      spiRead = (\<lambda>h f reg len. (False, \<lambda>_. 0)),
      spiDetect = (\<lambda>h p. False),
      updateFn = (\<lambda>h f. cb)\<rparr>"

text \<open>Register files: an MPU6050 whose revision burst has only the low bit of byte 3
  set (code 2); one whose burst is all zero and whose product identifier is \<open>0x14\<close>;
  one whose burst gives code 5; an MPU3050, which answers at the legacy identity
  register; a chip that answers with an identity of no known family; and a sample
  burst \<open>FF FE 01 02 80 00\<close> at the gyroscope and accelerometer registers.\<close>

definition regs_mpu6050 :: "uint8_t \<Rightarrow> nat \<Rightarrow> uint8_t" where
  "regs_mpu6050 reg i =
     (if reg = 0x75 then 0x68
      else if reg = 0x06 then (if i = 3 then 1 else 0)
      else if reg = 0x43 \<or> reg = 0x3B then
        (if i = 0 then 0xFF else if i = 1 then 0xFE else if i = 2 then 0x01
         else if i = 3 then 0x02 else if i = 4 then 0x80 else 0x00)
      else 0)"

definition regs_mpu6050_old :: "uint8_t \<Rightarrow> nat \<Rightarrow> uint8_t" where
  "regs_mpu6050_old reg i = (if reg = 0x75 then 0x68 else if reg = 0x0C then 0x14 else 0)"

definition regs_mpu6050_bad :: "uint8_t \<Rightarrow> nat \<Rightarrow> uint8_t" where
  "regs_mpu6050_bad reg i =
     (if reg = 0x75 then 0x68
      else if reg = 0x06 then (if i = 5 \<or> i = 1 then 1 else 0)
      else 0)"

definition regs_mpu3050 :: "uint8_t \<Rightarrow> nat \<Rightarrow> uint8_t" where
  "regs_mpu3050 reg i = (if reg = 0x00 then 0x69 else if reg = 0x75 then 0x68 else 0)"

text \<open>An MPU3050 as the comment in \<^verbatim>\<open>mpuDetect\<close> describes it: the identity register of
  the later families reads 0, the legacy identity register reads \<open>0x69\<close>.\<close>

definition regs_mpu3050_real :: "uint8_t \<Rightarrow> nat \<Rightarrow> uint8_t" where
  "regs_mpu3050_real reg i = (if reg = 0x00 then 0x69 else 0)"

definition regs_unknown :: "uint8_t \<Rightarrow> nat \<Rightarrow> uint8_t" where
  "regs_unknown reg i = (if reg = 0x75 then 0x12 else 0)"

text \<open>A device as the bootstrap leaves it: zero-initialised, the variant at its
  Unknown sentinel, no routine installed, the latch idle.\<close>

definition gyro0 :: gyroDev_t where
  "gyro0 =
     \<lparr>mpuConfiguration =
        \<lparr>gyroReadXRegister = 0, readFn = None, writeFn = None, slowreadFn = None,
         verifywriteFn = None, resetFn = None\<rparr>,
      mpuDetectionResult = \<lparr>sensor = MPU_NONE, resolution = MPU_HALF_RESOLUTION\<rparr>,
      dataReady = False, update = None, gyroADCRaw = (\<lambda>_. 0)\<rparr>"

text \<open>The same device with the primary transport's dispatch table installed.\<close>

definition gyro_i2c :: gyroDev_t where
  "gyro_i2c = with_i2c_dispatch (sim_platform True regs_mpu6050 id) gyro0"

definition acc0 :: accDev_t where
  "acc0 =
     \<lparr>acc_mpuConfiguration =
        \<lparr>gyroReadXRegister = 0x43, readFn = Some Fn_mpuReadRegisterI2C,
         writeFn = Some Fn_mpuWriteRegisterI2C, slowreadFn = None,
         verifywriteFn = None, resetFn = None\<rparr>,
      ADCRaw = (\<lambda>_. 0)\<rparr>"

text \<open>Devices in operation: a detected six-axis device at Full resolution with samples
  \<open>0x1234\<close>, \<open>-5\<close>, \<open>7\<close> stored, and an accelerometer with samples \<open>0x0102\<close>, \<open>-32768\<close>,
  \<open>-1\<close> stored.\<close>

definition gyro_sampled :: gyroDev_t where
  "gyro_sampled =
     \<lparr>mpuConfiguration =
        \<lparr>gyroReadXRegister = 0x43, readFn = Some Fn_mpuReadRegisterI2C,
         writeFn = Some Fn_mpuWriteRegisterI2C, slowreadFn = None,
         verifywriteFn = None, resetFn = None\<rparr>,
      mpuDetectionResult = \<lparr>sensor = MPU_60x0, resolution = MPU_FULL_RESOLUTION\<rparr>,
      dataReady = False, update = None,
      gyroADCRaw = (\<lambda>_. 0)(X := 0x1234, Y := 0xFFFB, Z := 7)\<rparr>"

definition acc_sampled :: accDev_t where
  "acc_sampled =
     \<lparr>acc_mpuConfiguration =
        \<lparr>gyroReadXRegister = 0x43, readFn = Some Fn_mpuReadRegisterI2C,
         writeFn = Some Fn_mpuWriteRegisterI2C, slowreadFn = None,
         verifywriteFn = None, resetFn = None\<rparr>,
      ADCRaw = (\<lambda>_. 0)(X := 0x0102, Y := 0x8000, Z := 0xFFFF)\<rparr>"

text \<open>Two update callbacks a client can install: one that takes the sample itself and
  clears the latch, one that only stores a sample.\<close>

definition cb_drain :: "gyroDev_t \<Rightarrow> gyroDev_t" where
  "cb_drain gyro = gyro\<lparr>dataReady := False\<rparr>"

definition cb_store :: "gyroDev_t \<Rightarrow> gyroDev_t" where
  "cb_store gyro = gyro\<lparr>gyroADCRaw := (gyroADCRaw gyro)(X := 1)\<rparr>"

text \<open>A platform with both routines: number 0 stores a sample, every other number
  clears the latch.\<close>

definition sim_two_callbacks :: platform where
  "sim_two_callbacks =
     (sim_platform True regs_mpu6050 cb_store)
       \<lparr>updateFn := (\<lambda>h f. if f = 0 then cb_store else cb_drain)\<rparr>"

section \<open>Arithmetic of the register bytes\<close>

lemma low_bit: "promote x AND 1 = of_bool (odd x)"
  unfolding promote_def
  by (rule bit_word_eqI) (auto simp: bit_simps bit_0)

lemma unat_mod2: "unat (x :: uint8_t) mod 2 = of_bool (odd x)"
  by (cases "odd x")
    (simp_all add: word_unat_eq_iff unat_mod even_iff_mod_2_eq_zero odd_iff_mod_2_eq_one)

lemma revision_of_bits:
  "revision_of b = of_bool (odd (b 5)) * 4 + of_bool (odd (b 3)) * 2 + of_bool (odd (b 1))"
  unfolding revision_of_def to_uint8_def
  by (simp add: low_bit)

text \<open>The byte the code computes is the specification's 3-bit code.\<close>

lemma unat_revision_of: "unat (revision_of b) = revision_code b"
  unfolding revision_of_bits revision_code_def unat_mod2
  by simp

lemma revision_of_eq_iff:
  assumes "n < 256"
  shows "revision_of b = of_nat n \<longleftrightarrow> revision_code b = n"
proof -
  have "revision_of b = of_nat n \<longleftrightarrow> unat (revision_of b) = unat (of_nat n :: uint8_t)"
    by (simp add: word_unat_eq_iff)
  also have "unat (of_nat n :: uint8_t) = n"
    using assms by (simp add: unat_of_nat)
  finally show ?thesis by (simp add: unat_revision_of)
qed

lemma revision_of_simps:
  "revision_of b = 0 \<longleftrightarrow> revision_code b = 0"
  "revision_of b = 1 \<longleftrightarrow> revision_code b = 1"
  "revision_of b = 2 \<longleftrightarrow> revision_code b = 2"
  "revision_of b = 3 \<longleftrightarrow> revision_code b = 3"
  "revision_of b = 7 \<longleftrightarrow> revision_code b = 7"
  using revision_of_eq_iff [of 0 b] revision_of_eq_iff [of 1 b] revision_of_eq_iff [of 2 b]
        revision_of_eq_iff [of 3 b] revision_of_eq_iff [of 7 b]
  by simp_all

text \<open>Masking in \<^verbatim>\<open>int\<close> and storing back into a byte is masking the byte.\<close>

lemma ucast_and:
  "(ucast ((ucast (x :: 8 word) :: 32 word) AND ucast (m :: 8 word)) :: 8 word) = x AND m"
  by (rule bit_word_eqI) (auto simp: bit_simps)

lemma nibble_of: "to_uint8 (promote x AND 0x0F) = x AND 0x0F"
  unfolding to_uint8_def promote_def
  using ucast_and [of x "0x0F"] by simp

lemma unat_nibble: "unat (x AND 0x0F :: uint8_t) = low_nibble x"
proof -
  have "x AND 0x0F = take_bit 4 x"
    by (simp add: take_bit_eq_mask mask_eq_exp_minus_1)
  then show ?thesis
    by (simp add: low_nibble_def unsigned_take_bit_eq take_bit_eq_mod unat_mod)
qed

lemma nibble_eq_iff:
  assumes "n < 256"
  shows "to_uint8 (promote x AND 0x0F) = of_nat n \<longleftrightarrow> low_nibble x = n"
proof -
  have "to_uint8 (promote x AND 0x0F) = of_nat n
          \<longleftrightarrow> unat (x AND 0x0F) = unat (of_nat n :: uint8_t)"
    by (simp add: nibble_of word_unat_eq_iff)
  also have "unat (of_nat n :: uint8_t) = n"
    using assms by (simp add: unat_of_nat)
  finally show ?thesis by (simp add: unat_nibble)
qed

lemma nibble_simps:
  "to_uint8 (promote x AND 0x0F) = 0 \<longleftrightarrow> low_nibble x = 0"
  "to_uint8 (promote x AND 0x0F) = 4 \<longleftrightarrow> low_nibble x = 4"
  using nibble_eq_iff [of 0 x] nibble_eq_iff [of 4 x]
  by simp_all

lemma unat_promote: "unat (promote x) = unat x"
proof -
  have "unat x < 2 ^ 8" using unsigned_less [of x] by simp
  then have "unat x < 2 ^ 32" by simp
  then show ?thesis
    unfolding promote_def by (simp add: unsigned_ucast_eq take_bit_nat_eq_self)
qed

lemma promote_eq_iff: "promote x = promote y \<longleftrightarrow> x = y"
  by (metis unat_promote word_unat_eq_iff)

lemma inquiry_mask: "to_uint8 (promote x AND MPU_INQUIRY_MASK) = x AND 0x7E"
  unfolding to_uint8_def promote_def MPU_INQUIRY_MASK_def
  using ucast_and [of x "0x7E"] by simp

lemma masked_eq_x0x0:
  "promote (to_uint8 (promote x AND MPU_INQUIRY_MASK)) = MPUx0x0_WHO_AM_I_CONST
     \<longleftrightarrow> x AND 0x7E = 0x68"
proof -
  have c: "MPUx0x0_WHO_AM_I_CONST = promote 0x68"
    by (simp add: promote_def MPUx0x0_WHO_AM_I_CONST_def)
  show ?thesis
    unfolding c inquiry_mask by (rule promote_eq_iff)
qed

lemma masked_eq_6500:
  "promote (to_uint8 (promote x AND MPU_INQUIRY_MASK)) = MPU6500_WHO_AM_I_CONST
     \<longleftrightarrow> x AND 0x7E = 0x70"
proof -
  have c: "MPU6500_WHO_AM_I_CONST = promote 0x70"
    by (simp add: promote_def MPU6500_WHO_AM_I_CONST_def)
  show ?thesis
    unfolding c inquiry_mask by (rule promote_eq_iff)
qed

text \<open>The sample decoder: shifting and or-ing in \<^verbatim>\<open>int\<close> and casting to \<^verbatim>\<open>int16_t\<close>
  concatenates the two bytes, and the result read as two's complement is the signed
  big-endian value.\<close>

lemma decode16_cat: "decode16 hi lo = word_cat hi lo"
  unfolding decode16_def to_int16_def promote_def
  by (rule bit_word_eqI) (auto simp: bit_simps dest: bit_imp_le_length)

lemma uint_decode16: "uint (decode16 hi lo) = 256 * uint hi + uint lo"
proof -
  have lo: "uint lo < 2 ^ 8" "0 \<le> uint lo" using unsigned_less [of lo] by simp_all
  have hi: "uint hi < 2 ^ 8" "0 \<le> uint hi" using unsigned_less [of hi] by simp_all
  have "uint (word_cat hi lo :: 16 word) =
          take_bit LENGTH(16) (concat_bit LENGTH(8) (uint lo) (uint hi))"
    by (simp only: word_cat_eq' uint_word_of_int_eq)
  also have "concat_bit LENGTH(8) (uint lo) (uint hi) = uint lo + 256 * uint hi"
    using lo by (simp add: concat_bit_eq take_bit_int_eq_self push_bit_eq_mult)
  also have "take_bit LENGTH(16) (uint lo + 256 * uint hi) = uint lo + 256 * uint hi"
    using lo hi by (simp add: take_bit_int_eq_self)
  finally show ?thesis by (simp add: decode16_cat)
qed

lemma signed_take_bit_15:
  fixes v :: int
  assumes "0 \<le> v" "v < 65536"
  shows "signed_take_bit 15 v = (if v < 32768 then v else v - 65536)"
proof (cases "v < 32768")
  case True
  with assms show ?thesis
    by (simp add: signed_take_bit_eq_take_bit_shift take_bit_int_eq_self)
next
  case False
  have eq: "v + 32768 = (v - 32768) + 65536" by simp
  have "(v + 32768) mod 65536 = (v - 32768) mod 65536"
    unfolding eq by (rule mod_add_self2)
  also have "\<dots> = v - 32768" using False assms by simp
  finally show ?thesis using False
    by (simp add: signed_take_bit_eq_take_bit_shift take_bit_eq_mod)
qed

lemma sint_decode16: "sint (decode16 hi lo) = be_s16 hi lo"
proof -
  have lo: "uint lo < 2 ^ 8" "0 \<le> uint lo" using unsigned_less [of lo] by simp_all
  have hi: "uint hi < 2 ^ 8" "0 \<le> uint hi" using unsigned_less [of hi] by simp_all
  let ?v = "256 * uint hi + uint lo"
  have v: "0 \<le> ?v" "?v < 65536" using lo hi by simp_all
  have "sint (decode16 hi lo) = signed_take_bit 15 ?v"
    by (simp add: sint_uint uint_decode16)
  also have "\<dots> = (if ?v < 32768 then ?v else ?v - 65536)"
    using v by (rule signed_take_bit_15)
  finally show ?thesis by (simp add: be_s16_def Let_def)
qed

lemma decode_xyz_axes:
  "sint (decode_xyz data raw X) = be_s16 (data 0) (data 1)"
  "sint (decode_xyz data raw Y) = be_s16 (data 2) (data 3)"
  "sint (decode_xyz data raw Z) = be_s16 (data 4) (data 5)"
  by (simp_all add: decode_xyz_def sint_decode16)

section \<open>The log of a run\<close>

lemma call_readFn_log: "fst (call_readFn P w rf reg len) = w @ [read_event P rf reg len]"
  by (cases rf) (simp_all add: mpuReadRegisterI2C_def)

lemma i2c_log:
  "mpuReadRegisterI2C P w reg len = (w', r) \<Longrightarrow>
     w' = w @ [I2C_READ (MPU_I2C_INSTANCE P) MPU_ADDRESS reg len]"
  by (auto simp: mpuReadRegisterI2C_def)

lemma revision_burst_read_event:
  "revision_burst P (read_event P rf reg len) \<longleftrightarrow> reg = MPU_RA_XA_OFFS_H P \<and> len = 6"
  by (cases rf) simp_all

text \<open>One run of revision classification logs its burst and at most the one-byte read
  of the product identifier.\<close>

lemma mpu6050FindRevision_log:
  assumes "readFn (mpuConfiguration gyro) = Some rf"
  shows "fst (final_state (mpu6050FindRevision P w gyro)) =
           w @ [read_event P rf (MPU_RA_XA_OFFS_H P) 6]
       \<or> fst (final_state (mpu6050FindRevision P w gyro)) =
           w @ [read_event P rf (MPU_RA_XA_OFFS_H P) 6, read_event P rf (MPU_RA_PRODUCT_ID P) 1]"
proof -
  obtain w1 a1 b1 where r1: "call_readFn P w rf (MPU_RA_XA_OFFS_H P) 6 = (w1, a1, b1)"
    by (cases "call_readFn P w rf (MPU_RA_XA_OFFS_H P) 6") auto
  obtain w2 a2 b2 where r2: "call_readFn P w1 rf (MPU_RA_PRODUCT_ID P) 1 = (w2, a2, b2)"
    by (cases "call_readFn P w1 rf (MPU_RA_PRODUCT_ID P) 1") auto
  have w1: "w1 = w @ [read_event P rf (MPU_RA_XA_OFFS_H P) 6]"
    using r1 call_readFn_log [of P w rf "MPU_RA_XA_OFFS_H P" 6] by simp
  have w2: "w2 = w1 @ [read_event P rf (MPU_RA_PRODUCT_ID P) 1]"
    using r2 call_readFn_log [of P w1 rf "MPU_RA_PRODUCT_ID P" 1] by simp
  have "fst (final_state (mpu6050FindRevision P w gyro)) = w1
      \<or> fst (final_state (mpu6050FindRevision P w gyro)) = w2"
    using assms r1 r2 by (simp add: mpu6050FindRevision_def failureMode_def Let_def)
  then show ?thesis using w1 w2 by auto
qed

text \<open>Revision classification writes the resolution and nothing else.\<close>

lemma mpu6050FindRevision_keeps:
  "mpuConfiguration (snd (final_state (mpu6050FindRevision P w gyro))) = mpuConfiguration gyro"
  "sensor (mpuDetectionResult (snd (final_state (mpu6050FindRevision P w gyro)))) =
     sensor (mpuDetectionResult gyro)"
  by (simp_all add: mpu6050FindRevision_def failureMode_def Let_def set_resolution_def
      split: option.splits prod.splits)

lemma call_readFn_override:
  "call_readFn (override_acks a P) w rf reg len =
     (case call_readFn P w rf reg len of (w1, ack, buf) \<Rightarrow> (w1, a w, buf))"
  by (cases rf) (simp_all add: mpuReadRegisterI2C_def override_acks_def split: prod.splits)

lemma override_regs:
  "MPU_RA_XA_OFFS_H (override_acks a P) = MPU_RA_XA_OFFS_H P"
  "MPU_RA_PRODUCT_ID (override_acks a P) = MPU_RA_PRODUCT_ID P"
  by (simp_all add: override_acks_def)

section \<open>Detection, case by case\<close>

text \<open>What detection does once the primary transport has answered: the three
  comparisons of the code, on the masked bytes.\<close>

lemma mpuDetect_acked:
  assumes "USE_I2C P"
      and "mpuReadRegisterI2C P (w @ [DELAY 35]) (MPU_RA_WHO_AM_I P) 1 = (w1, True, sig)"
      and "mpuReadRegisterI2C P w1 (MPU_RA_WHO_AM_I_LEGACY P) 1 = (w2, ack2, inquiry)"
  shows "mpuDetect P w gyro =
           (if ack2 \<and> inquiry 0 AND 0x7E = 0x68 then
              Inr (w2, (set_sensor MPU_3050 (with_i2c_dispatch P gyro))\<lparr>mpuConfiguration :=
                     (mpuConfiguration (with_i2c_dispatch P gyro))
                       \<lparr>gyroReadXRegister := MPU3050_GYRO_OUT P\<rparr>\<rparr>)
            else if sig 0 AND 0x7E = 0x68 then
              mpu6050FindRevision P w2 (set_sensor MPU_60x0 (with_i2c_dispatch P gyro))
            else if sig 0 AND 0x7E = 0x70 then
              Inr (w2, set_sensor MPU_65xx_I2C (with_i2c_dispatch P gyro))
            else Inr (w2, with_i2c_dispatch P gyro))"
  using assms
  by (simp add: mpuDetect_def probe_who_am_i_def Let_def masked_eq_x0x0 masked_eq_6500
      with_i2c_dispatch_def set_sensor_def)

lemma detectSPI_unclaimed:
  "detectSPISensorsAndUpdateDetectionResult P w gyro = (w', gyro', False) \<Longrightarrow> gyro' = gyro"
  by (simp add: detectSPISensorsAndUpdateDetectionResult_def Let_def
      split: prod.splits bool.splits)

section \<open>The latch, step by step\<close>

text \<open>An edge leaves the latch set when the callbacks the device can have do not clear
  it, and the device has one of those callbacks (or none) again afterwards.\<close>

lemma handler_sets_latch:
  assumes "keeps_latch P S"
      and "\<forall>f. update gyro = Some f \<longrightarrow> f \<in> S"
  shows "latch_of (snd (mpuIntExtiHandler P w gyro)) = Ready"
    and "\<forall>g. update (snd (mpuIntExtiHandler P w gyro)) = Some g \<longrightarrow> g \<in> S"
proof -
  let ?d = "gyro\<lparr>dataReady := True\<rparr>"
  show "latch_of (snd (mpuIntExtiHandler P w gyro)) = Ready"
  proof (cases "update gyro")
    case None
    then show ?thesis by (simp add: mpuIntExtiHandler_def latch_of_def)
  next
    case (Some f)
    with assms(2) have "f \<in> S" by simp
    moreover have "update ?d = Some f \<and> dataReady ?d" using Some by simp
    ultimately have "dataReady (updateFn P w f ?d)"
      using assms(1) unfolding keeps_latch_def by blast
    with Some show ?thesis by (simp add: mpuIntExtiHandler_def latch_of_def)
  qed
  show "\<forall>g. update (snd (mpuIntExtiHandler P w gyro)) = Some g \<longrightarrow> g \<in> S"
  proof (cases "update gyro")
    case None
    then show ?thesis by (simp add: mpuIntExtiHandler_def)
  next
    case (Some f)
    with assms(2) have "f \<in> S" by simp
    moreover have "update ?d = Some f \<and> dataReady ?d" using Some by simp
    ultimately have "\<forall>g. update (updateFn P w f ?d) = Some g \<longrightarrow> g \<in> S"
      using assms(1) unfolding keeps_latch_def by blast
    with Some show ?thesis by (simp add: mpuIntExtiHandler_def)
  qed
qed

lemma consume_latch:
  "mpuCheckDataReady gyro = (latch_of gyro = Ready, gyro\<lparr>dataReady := False\<rparr>)"
  by (simp add: mpuCheckDataReady_def latch_of_def)

lemma latch_spec_consume:
  "latch_spec l (Consume # ops) =
     (case latch_spec Idle ops of (rets, l') \<Rightarrow> ((l = Ready) # rets, l'))"
  by (cases l) simp_all

section \<open>The simulated hardware, evaluated\<close>

lemma sim_platform_simps:
  "USE_I2C (sim_platform a r c) = True"
  "USE_SPI (sim_platform a r c) = True"
  "USE_GYRO_SPI_MPU6000 (sim_platform a r c) = True"
  "USE_GYRO_SPI_MPU6500 (sim_platform a r c) = True"
  "USE_GYRO_SPI_MPU9250 (sim_platform a r c) = True"
  "USE_GYRO_SPI_ICM20608 (sim_platform a r c) = True"
  "USE_GYRO_SPI_ICM20689 (sim_platform a r c) = True"
  "MPU_I2C_INSTANCE (sim_platform a r c) = 0"
  "MPU_RA_XA_OFFS_H (sim_platform a r c) = 0x06"
  "MPU_RA_PRODUCT_ID (sim_platform a r c) = 0x0C"
  "MPU_RA_WHO_AM_I (sim_platform a r c) = 0x75"
  "MPU_RA_WHO_AM_I_LEGACY (sim_platform a r c) = 0x00"
  "MPU_RA_GYRO_XOUT_H (sim_platform a r c) = 0x43"
  "MPU_RA_ACCEL_XOUT_H (sim_platform a r c) = 0x3B"
  "MPU3050_GYRO_OUT (sim_platform a r c) = 0x1D"
  "i2cRead (sim_platform a r c) h i ad reg len = (a, r reg)"
  "spiRead (sim_platform a r c) h f reg len = (False, \<lambda>_. 0)"
  "spiDetect (sim_platform a r c) h p = False"
  "updateFn (sim_platform a r c) h n = c"
  by (simp_all add: sim_platform_def)

lemmas sim_defs = sim_platform_simps gyro_i2c_def gyro0_def acc0_def with_i2c_dispatch_def
  mpuReadRegisterI2C_def set_resolution_def set_sensor_def MPU_ADDRESS_def

lemmas regs_defs = regs_mpu6050_def regs_mpu6050_old_def regs_mpu6050_bad_def
  regs_mpu3050_def regs_mpu3050_real_def regs_unknown_def

section \<open>Revision classification\<close>

text \<open>
  C1. For every 6-byte revision burst, \<^verbatim>\<open>mpu6050FindRevision\<close> computes the 3-bit code
  with bit 2 the low bit of byte 5, bit 1 the low bit of byte 3 and bit 0 the low bit of
  byte 1, and maps it: code 1 gives Half resolution; code 2, 3 or 7 gives Full
  resolution; any other nonzero code is the fatal unsupported-hardware failure; code 0
  falls back to the low nibble of the product-identifier register, read through the
  same routine, where nibble 0 is the fatal failure, nibble 4 gives Half and any other
  nibble gives Full. The run ends after the burst in the first case and after the
  product-identifier read in the second. A fatal run halts with the device as it was;
  a run that returns has written the resolution field, and no other field.
\<close>

theorem mpu6050FindRevision_classifies:
  assumes "readFn (mpuConfiguration gyro) = Some rf"
      and "call_readFn P w rf (MPU_RA_XA_OFFS_H P) 6 = (w1, ack1, readBuffer)"
      and "call_readFn P w1 rf (MPU_RA_PRODUCT_ID P) 1 = (w2, ack2, productId)"
  shows "(case revision_verdict readBuffer (productId 0) of
            None \<Rightarrow>
              mpu6050FindRevision P w gyro =
                Inl (FAILURE_MODE FAILURE_ACC_INCOMPATIBLE,
                     if revision_code readBuffer \<noteq> 0 then w1 else w2, gyro)
          | Some r \<Rightarrow>
              (\<exists>gyro'. mpu6050FindRevision P w gyro =
                          Inr (if revision_code readBuffer \<noteq> 0 then w1 else w2, gyro')
                 \<and> resolution (mpuDetectionResult gyro') = r
                 \<and> sensor (mpuDetectionResult gyro') = sensor (mpuDetectionResult gyro)
                 \<and> mpuConfiguration gyro' = mpuConfiguration gyro
                 \<and> dataReady gyro' = dataReady gyro
                 \<and> update gyro' = update gyro
                 \<and> gyroADCRaw gyro' = gyroADCRaw gyro))"
  using assms
  by (simp add: mpu6050FindRevision_def failureMode_def Let_def revision_of_simps nibble_simps
      revision_verdict_def classify_code_def classify_nibble_def set_resolution_def)

text \<open>On the simulated chips: a burst with code 2 turns a device at Half into Full (the
  read not being acknowledged); an empty burst with product identifier \<open>0x14\<close> turns a
  device at Full into Half after the second read; a burst with code 5 is fatal.\<close>

theorem mpu6050FindRevision_classifies_witness:
  "resolution (mpuDetectionResult gyro_i2c) = MPU_HALF_RESOLUTION
 \<and> (\<exists>g. mpu6050FindRevision (sim_platform False regs_mpu6050 id) [] gyro_i2c =
          Inr ([I2C_READ 0 0x68 0x06 6], g)
        \<and> resolution (mpuDetectionResult g) = MPU_FULL_RESOLUTION)
 \<and> resolution (mpuDetectionResult gyro_sampled) = MPU_FULL_RESOLUTION
 \<and> (\<exists>g. mpu6050FindRevision (sim_platform True regs_mpu6050_old id) [] gyro_sampled =
          Inr ([I2C_READ 0 0x68 0x06 6, I2C_READ 0 0x68 0x0C 1], g)
        \<and> resolution (mpuDetectionResult g) = MPU_HALF_RESOLUTION
        \<and> sensor (mpuDetectionResult g) = MPU_60x0
        \<and> gyroADCRaw g X = 0x1234)
 \<and> mpu6050FindRevision (sim_platform True regs_mpu6050_bad id) [] gyro_sampled =
     Inl (FAILURE_MODE FAILURE_ACC_INCOMPATIBLE, [I2C_READ 0 0x68 0x06 6], gyro_sampled)"
proof -
  have a: "revision_verdict (regs_mpu6050 0x06) (regs_mpu6050 0x0C 0) = Some MPU_FULL_RESOLUTION"
          "revision_code (regs_mpu6050 0x06) \<noteq> 0"
    and b: "revision_verdict (regs_mpu6050_old 0x06) (regs_mpu6050_old 0x0C 0) =
              Some MPU_HALF_RESOLUTION"
          "revision_code (regs_mpu6050_old 0x06) = 0"
    and c: "revision_verdict (regs_mpu6050_bad 0x06) (regs_mpu6050_bad 0x0C 0) = None"
          "revision_code (regs_mpu6050_bad 0x06) \<noteq> 0"
    by (simp_all add: revision_verdict_def revision_code_def low_nibble_def classify_code_def
        classify_nibble_def regs_defs)
  have "\<exists>g. mpu6050FindRevision (sim_platform False regs_mpu6050 id) [] gyro_i2c =
          Inr ([I2C_READ 0 0x68 0x06 6], g)
        \<and> resolution (mpuDetectionResult g) = MPU_FULL_RESOLUTION"
    using mpu6050FindRevision_classifies [of gyro_i2c Fn_mpuReadRegisterI2C
          "sim_platform False regs_mpu6050 id" "[]" "[I2C_READ 0 0x68 0x06 6]" False
          "regs_mpu6050 0x06" "[I2C_READ 0 0x68 0x06 6, I2C_READ 0 0x68 0x0C 1]" False
          "regs_mpu6050 0x0C"] a
    by (auto simp add: sim_defs)
  moreover have "\<exists>g. mpu6050FindRevision (sim_platform True regs_mpu6050_old id) [] gyro_sampled =
          Inr ([I2C_READ 0 0x68 0x06 6, I2C_READ 0 0x68 0x0C 1], g)
        \<and> resolution (mpuDetectionResult g) = MPU_HALF_RESOLUTION
        \<and> sensor (mpuDetectionResult g) = MPU_60x0
        \<and> gyroADCRaw g X = 0x1234"
    using mpu6050FindRevision_classifies [of gyro_sampled Fn_mpuReadRegisterI2C
          "sim_platform True regs_mpu6050_old id" "[]" "[I2C_READ 0 0x68 0x06 6]" True
          "regs_mpu6050_old 0x06" "[I2C_READ 0 0x68 0x06 6, I2C_READ 0 0x68 0x0C 1]" True
          "regs_mpu6050_old 0x0C"] b
    by (auto simp add: sim_defs gyro_sampled_def)
  moreover have "mpu6050FindRevision (sim_platform True regs_mpu6050_bad id) [] gyro_sampled =
     Inl (FAILURE_MODE FAILURE_ACC_INCOMPATIBLE, [I2C_READ 0 0x68 0x06 6], gyro_sampled)"
    using mpu6050FindRevision_classifies [of gyro_sampled Fn_mpuReadRegisterI2C
          "sim_platform True regs_mpu6050_bad id" "[]" "[I2C_READ 0 0x68 0x06 6]" True
          "regs_mpu6050_bad 0x06" "[I2C_READ 0 0x68 0x06 6, I2C_READ 0 0x68 0x0C 1]" True
          "regs_mpu6050_bad 0x0C"] c
    by (simp add: sim_platform_simps mpuReadRegisterI2C_def MPU_ADDRESS_def gyro_sampled_def)
  ultimately show ?thesis
    by (simp add: gyro_i2c_def gyro0_def with_i2c_dispatch_def gyro_sampled_def)
qed

section \<open>Detection\<close>

text \<open>
  C2. For every run of \<^verbatim>\<open>mpuDetect\<close> in which the primary transport acknowledges the
  identity probe, the legacy-register probe does not classify the device as legacy, and
  the identity byte masked with the inquiry mask equals the six-axis constant: the run
  is one run of revision classification on the device with the primary transport's
  routines, the standard gyroscope register and the six-axis variant installed; at its
  end (returned or halted) the variant is the six-axis one and the gyroscope register
  the standard one, and the log holds exactly one revision burst; and on a burst with
  code 2 the run returns with the resolution field at Full.
\<close>

theorem mpuDetect_six_axis:
  assumes "USE_I2C P"
      and "mpuReadRegisterI2C P (w @ [DELAY 35]) (MPU_RA_WHO_AM_I P) 1 = (w1, True, sig)"
      and "mpuReadRegisterI2C P w1 (MPU_RA_WHO_AM_I_LEGACY P) 1 = (w2, ack2, inquiry)"
      and "\<not> (ack2 \<and> inquiry 0 AND 0x7E = 0x68)"
      and "sig 0 AND 0x7E = 0x68"
      and "mpuReadRegisterI2C P w2 (MPU_RA_XA_OFFS_H P) 6 = (w3, ack3, readBuffer)"
  shows "mpuDetect P w gyro =
           mpu6050FindRevision P w2 (set_sensor MPU_60x0 (with_i2c_dispatch P gyro))
       \<and> sensor (mpuDetectionResult (snd (final_state (mpuDetect P w gyro)))) = MPU_60x0
       \<and> gyroReadXRegister (mpuConfiguration (snd (final_state (mpuDetect P w gyro)))) =
           MPU_RA_GYRO_XOUT_H P
       \<and> revision_bursts P w (fst (final_state (mpuDetect P w gyro))) = 1
       \<and> (revision_code readBuffer = 2 \<longrightarrow>
            (\<exists>gyro'. mpuDetect P w gyro = Inr (w3, gyro')
               \<and> resolution (mpuDetectionResult gyro') = MPU_FULL_RESOLUTION))"
proof -
  let ?g = "set_sensor MPU_60x0 (with_i2c_dispatch P gyro)"
  have rf: "readFn (mpuConfiguration ?g) = Some Fn_mpuReadRegisterI2C"
    by (simp add: set_sensor_def with_i2c_dispatch_def)
  have run: "mpuDetect P w gyro = mpu6050FindRevision P w2 ?g"
    using mpuDetect_acked [OF assms(1-3), of gyro] assms(4,5) by simp
  have s: "sensor (mpuDetectionResult (snd (final_state (mpu6050FindRevision P w2 ?g)))) =
             MPU_60x0"
    by (simp add: mpu6050FindRevision_keeps set_sensor_def)
  have r: "gyroReadXRegister (mpuConfiguration (snd (final_state (mpu6050FindRevision P w2 ?g)))) =
             MPU_RA_GYRO_XOUT_H P"
    by (simp add: mpu6050FindRevision_keeps set_sensor_def with_i2c_dispatch_def)
  have w1: "w1 = (w @ [DELAY 35]) @
              [I2C_READ (MPU_I2C_INSTANCE P) MPU_ADDRESS (MPU_RA_WHO_AM_I P) 1]"
    using assms(2) by (rule i2c_log)
  have w2: "w2 = w1 @ [I2C_READ (MPU_I2C_INSTANCE P) MPU_ADDRESS (MPU_RA_WHO_AM_I_LEGACY P) 1]"
    using assms(3) by (rule i2c_log)
  have "revision_bursts P w (fst (final_state (mpu6050FindRevision P w2 ?g))) = 1"
    using mpu6050FindRevision_log [OF rf, of P w2] w1 w2
    by (auto simp: revision_bursts_def)
  moreover have "revision_code readBuffer = 2 \<Longrightarrow>
      \<exists>gyro'. mpu6050FindRevision P w2 ?g = Inr (w3, gyro')
         \<and> resolution (mpuDetectionResult gyro') = MPU_FULL_RESOLUTION"
    using rf assms(6) unat_revision_of [of readBuffer]
    by (simp add: mpu6050FindRevision_def Let_def word_unat_eq_iff set_resolution_def)
  ultimately show ?thesis using run s r by simp
qed

text \<open>End to end on the simulated MPU6050 whose burst gives code 2.\<close>

theorem mpuDetect_six_axis_witness:
  "sensor (mpuDetectionResult gyro0) = MPU_NONE
 \<and> resolution (mpuDetectionResult gyro0) = MPU_HALF_RESOLUTION
 \<and> gyroReadXRegister (mpuConfiguration gyro0) = 0
 \<and> (\<exists>g. mpuDetect (sim_platform True regs_mpu6050 id) [] gyro0 =
          Inr ([DELAY 35, I2C_READ 0 0x68 0x75 1, I2C_READ 0 0x68 0x00 1,
                I2C_READ 0 0x68 0x06 6], g)
        \<and> resolution (mpuDetectionResult g) = MPU_FULL_RESOLUTION
        \<and> sensor (mpuDetectionResult g) = MPU_60x0
        \<and> gyroReadXRegister (mpuConfiguration g) = 0x43)
 \<and> revision_bursts (sim_platform True regs_mpu6050 id) []
       (fst (final_state (mpuDetect (sim_platform True regs_mpu6050 id) [] gyro0))) = 1"
proof -
  let ?P = "sim_platform True regs_mpu6050 id"
  have code: "revision_code (regs_mpu6050 0x06) = 2"
    by (simp add: revision_code_def regs_defs)
  have "mpuReadRegisterI2C ?P ([] @ [DELAY 35]) (MPU_RA_WHO_AM_I ?P) 1 =
          ([DELAY 35, I2C_READ 0 0x68 0x75 1], True, regs_mpu6050 0x75)"
       "mpuReadRegisterI2C ?P [DELAY 35, I2C_READ 0 0x68 0x75 1] (MPU_RA_WHO_AM_I_LEGACY ?P) 1 =
          ([DELAY 35, I2C_READ 0 0x68 0x75 1, I2C_READ 0 0x68 0x00 1], True, regs_mpu6050 0x00)"
       "\<not> (True \<and> regs_mpu6050 0x00 0 AND 0x7E = 0x68)"
       "regs_mpu6050 0x75 0 AND 0x7E = 0x68"
       "mpuReadRegisterI2C ?P [DELAY 35, I2C_READ 0 0x68 0x75 1, I2C_READ 0 0x68 0x00 1]
          (MPU_RA_XA_OFFS_H ?P) 6 =
          ([DELAY 35, I2C_READ 0 0x68 0x75 1, I2C_READ 0 0x68 0x00 1, I2C_READ 0 0x68 0x06 6],
           True, regs_mpu6050 0x06)"
    by (simp_all add: sim_platform_simps mpuReadRegisterI2C_def MPU_ADDRESS_def regs_defs)
  from mpuDetect_six_axis [OF _ this, of gyro0, THEN conjunct2] code
  have "sensor (mpuDetectionResult (snd (final_state (mpuDetect ?P [] gyro0)))) = MPU_60x0"
       "gyroReadXRegister (mpuConfiguration (snd (final_state (mpuDetect ?P [] gyro0)))) = 0x43"
       "revision_bursts ?P [] (fst (final_state (mpuDetect ?P [] gyro0))) = 1"
       "\<exists>g. mpuDetect ?P [] gyro0 =
          Inr ([DELAY 35, I2C_READ 0 0x68 0x75 1, I2C_READ 0 0x68 0x00 1,
                I2C_READ 0 0x68 0x06 6], g)
        \<and> resolution (mpuDetectionResult g) = MPU_FULL_RESOLUTION"
    by (simp_all add: sim_platform_simps)
  then show ?thesis
    by (auto simp add: gyro0_def)
qed

text \<open>
  C3, as the specification states it: for a primary-transport identity byte masked to
  the legacy constant, detection yields the legacy variant and the legacy gyroscope
  register and bypasses revision classification. The code compares the identity byte
  with that constant (\<^verbatim>\<open>MPUx0x0_WHO_AM_I_CONST\<close>) only to find the six-axis family: on
  the simulated MPU6050 the masked identity byte is the constant, and detection yields
  the six-axis variant, keeps the standard register and classifies the revision.
\<close>

theorem identity_byte_legacy_constant_six_axis:
  "regs_mpu6050 0x75 0 AND 0x7E = 0x68
 \<and> mpuDetect (sim_platform True regs_mpu6050 id) [] gyro0 =
     Inr ([DELAY 35, I2C_READ 0 0x68 0x75 1, I2C_READ 0 0x68 0x00 1, I2C_READ 0 0x68 0x06 6],
          set_resolution MPU_FULL_RESOLUTION (set_sensor MPU_60x0 gyro_i2c))
 \<and> sensor (mpuDetectionResult (set_resolution MPU_FULL_RESOLUTION (set_sensor MPU_60x0 gyro_i2c)))
       \<noteq> MPU_3050
 \<and> gyroReadXRegister
       (mpuConfiguration (set_resolution MPU_FULL_RESOLUTION (set_sensor MPU_60x0 gyro_i2c)))
       \<noteq> MPU3050_GYRO_OUT (sim_platform True regs_mpu6050 id)
 \<and> revision_bursts (sim_platform True regs_mpu6050 id) []
       [DELAY 35, I2C_READ 0 0x68 0x75 1, I2C_READ 0 0x68 0x00 1, I2C_READ 0 0x68 0x06 6] = 1"
proof -
  let ?P = "sim_platform True regs_mpu6050 id"
  have "mpuDetect ?P [] gyro0 = mpu6050FindRevision ?P
          [DELAY 35, I2C_READ 0 0x68 0x75 1, I2C_READ 0 0x68 0x00 1]
          (set_sensor MPU_60x0 (with_i2c_dispatch ?P gyro0))"
    using mpuDetect_acked [where P = ?P and w = "[]"
          and ?w1.0 = "[DELAY 35, I2C_READ 0 0x68 0x75 1]" and sig = "regs_mpu6050 0x75"
          and ?w2.0 = "[DELAY 35, I2C_READ 0 0x68 0x75 1, I2C_READ 0 0x68 0x00 1]"
          and ?ack2.0 = True and inquiry = "regs_mpu6050 0x00" and gyro = gyro0]
    by (simp add: sim_platform_simps mpuReadRegisterI2C_def MPU_ADDRESS_def regs_defs)
  then show ?thesis
    by (simp add: sim_defs regs_defs mpu6050FindRevision_def revision_of_simps revision_code_def
        revision_bursts_def)
qed

text \<open>
  C3, amended: when the primary transport acknowledges the identity probe, and the
  separate read of the legacy identity register is acknowledged and, masked with the
  inquiry mask, equals the legacy constant, detection classifies the device as the
  legacy 3-axis-only variant, overrides the gyroscope register to the legacy register
  and returns without revision classification, whatever the primary identity byte is.
\<close>

theorem mpuDetect_legacy_by_legacy_register:
  assumes "USE_I2C P"
      and "mpuReadRegisterI2C P (w @ [DELAY 35]) (MPU_RA_WHO_AM_I P) 1 = (w1, True, sig)"
      and "mpuReadRegisterI2C P w1 (MPU_RA_WHO_AM_I_LEGACY P) 1 = (w2, True, inquiry)"
      and "inquiry 0 AND 0x7E = 0x68"
  shows "(\<exists>gyro'. mpuDetect P w gyro = Inr (w2, gyro')
          \<and> sensor (mpuDetectionResult gyro') = MPU_3050
          \<and> gyroReadXRegister (mpuConfiguration gyro') = MPU3050_GYRO_OUT P
          \<and> readFn (mpuConfiguration gyro') = Some Fn_mpuReadRegisterI2C
          \<and> writeFn (mpuConfiguration gyro') = Some Fn_mpuWriteRegisterI2C
          \<and> resolution (mpuDetectionResult gyro') = resolution (mpuDetectionResult gyro))
       \<and> revision_bursts P w w2 = 0"
proof -
  have w1: "w1 = (w @ [DELAY 35]) @
              [I2C_READ (MPU_I2C_INSTANCE P) MPU_ADDRESS (MPU_RA_WHO_AM_I P) 1]"
    using assms(2) by (rule i2c_log)
  have w2: "w2 = w1 @ [I2C_READ (MPU_I2C_INSTANCE P) MPU_ADDRESS (MPU_RA_WHO_AM_I_LEGACY P) 1]"
    using assms(3) by (rule i2c_log)
  have "revision_bursts P w w2 = 0"
    using w1 w2 by (simp add: revision_bursts_def)
  then show ?thesis
    using mpuDetect_acked [OF assms(1-3), of gyro] assms(4)
    by (simp add: set_sensor_def with_i2c_dispatch_def)
qed

text \<open>On the simulated MPU3050, whose primary identity byte is the constant as well.\<close>

theorem mpuDetect_legacy_by_legacy_register_witness:
  "regs_mpu3050 0x75 0 AND 0x7E = 0x68
 \<and> (\<exists>gyro'. mpuDetect (sim_platform True regs_mpu3050 id) [] gyro0 =
        Inr ([DELAY 35, I2C_READ 0 0x68 0x75 1, I2C_READ 0 0x68 0x00 1], gyro')
      \<and> sensor (mpuDetectionResult gyro') = MPU_3050
      \<and> gyroReadXRegister (mpuConfiguration gyro') = 0x1D)"
  using mpuDetect_legacy_by_legacy_register [where P = "sim_platform True regs_mpu3050 id"
          and w = "[]" and ?w1.0 = "[DELAY 35, I2C_READ 0 0x68 0x75 1]"
          and sig = "regs_mpu3050 0x75"
          and ?w2.0 = "[DELAY 35, I2C_READ 0 0x68 0x75 1, I2C_READ 0 0x68 0x00 1]"
          and inquiry = "regs_mpu3050 0x00" and gyro = gyro0]
  by (auto simp add: sim_defs regs_defs)

text \<open>
  C4. For every run of \<^verbatim>\<open>mpuDetect\<close> in which the primary transport does not
  acknowledge the identity probe (or is compiled out) and no SPI probe claims the
  device, detection returns and the device is as it was: the variant still at its
  Unknown sentinel, no read routine, write routine or gyroscope register installed.
\<close>

theorem mpuDetect_nothing_found:
  assumes "probe_who_am_i P (w @ [DELAY 35]) = (w1, False, sig)"
      and "USE_SPI P \<longrightarrow> \<not> snd (snd (detectSPISensorsAndUpdateDetectionResult P w1 gyro))"
  shows "\<exists>w'. mpuDetect P w gyro = Inr (w', gyro)"
proof (cases "USE_SPI P")
  case False
  with assms(1) show ?thesis by (simp add: mpuDetect_def)
next
  case True
  obtain w2 gyro' d where d: "detectSPISensorsAndUpdateDetectionResult P w1 gyro = (w2, gyro', d)"
    by (cases "detectSPISensorsAndUpdateDetectionResult P w1 gyro") auto
  with True assms(2) have "\<not> d" by simp
  with d have "gyro' = gyro" using detectSPI_unclaimed by simp
  with True d assms(1) show ?thesis by (simp add: mpuDetect_def)
qed

text \<open>On a bus that acknowledges nothing, with SPI drivers that find nothing.\<close>

theorem mpuDetect_nothing_found_witness:
  "\<exists>w'. mpuDetect (sim_platform False regs_unknown id) [] gyro0 = Inr (w', gyro0)
      \<and> sensor (mpuDetectionResult gyro0) = MPU_NONE
      \<and> readFn (mpuConfiguration gyro0) = None
      \<and> writeFn (mpuConfiguration gyro0) = None"
  using mpuDetect_nothing_found [where P = "sim_platform False regs_unknown id"
          and w = "[]" and ?w1.0 = "[DELAY 35, I2C_READ 0 0x68 0x75 1]"
          and sig = "regs_unknown 0x75" and gyro = gyro0]
  by (simp add: sim_defs regs_defs probe_who_am_i_def detectSPISensorsAndUpdateDetectionResult_def
      probe_if_def call_spiDetect_def)

section \<open>The data-ready latch\<close>

text \<open>
  C5, as stated: for every sequence of latch operations, the first consume after an
  edge returns true. The interrupt service routine hands the device to the installed
  update callback after it has set the latch, and a callback that takes the sample
  itself and clears the latch leaves nothing to consume: after one edge the first
  consume returns false, where the specification's latch answers true.
\<close>

theorem drain_callback_hides_edge:
  "fst (mpuCheckDataReady (snd (mpuIntExtiHandler (sim_platform True regs_mpu6050 cb_drain) []
          (mpuGyroSetIsrUpdate gyro0 (Some 0))))) = False
 \<and> fst (run_latch (sim_platform True regs_mpu6050 cb_drain) []
          (mpuGyroSetIsrUpdate gyro0 (Some 0)) [OnEdge, Consume]) = [False]
 \<and> fst (latch_spec (latch_of (mpuGyroSetIsrUpdate gyro0 (Some 0))) [OnEdge, Consume]) = [True]"
  by (simp add: mpuIntExtiHandler_def mpuCheckDataReady_def mpuGyroSetIsrUpdate_def cb_drain_def
      sim_platform_simps gyro0_def latch_of_def)

text \<open>
  C5, amended: for every sequence of latch operations on a device that has no update
  callback installed, or whose update callbacks (the one installed, and any that one
  of them installs in its place) never clear a set latch, the consumes return what the
  two-state latch of the specification returns: true for the first consume after an
  edge (however many edges came before it), which resets the latch to Idle, false for
  every further consume before the next edge, and false as long as the latch was never
  set; the latch bit of the device at the end is the specification's state. Routines
  of the platform that the device never has installed do not matter.
\<close>

theorem latch_once_per_edge:
  assumes "keeps_latch P S"
      and "\<forall>f. update gyro = Some f \<longrightarrow> f \<in> S"
  shows "fst (run_latch P w gyro ops) = fst (latch_spec (latch_of gyro) ops)
       \<and> latch_of (snd (run_latch P w gyro ops)) = snd (latch_spec (latch_of gyro) ops)"
  using assms(2)
proof (induction ops arbitrary: w gyro)
  case Nil
  show ?case by simp
next
  case (Cons op ops)
  show ?case
  proof (cases op)
    case OnEdge
    obtain w' gyro' where h: "mpuIntExtiHandler P w gyro = (w', gyro')"
      by (cases "mpuIntExtiHandler P w gyro") auto
    have "latch_of gyro' = Ready"
      using handler_sets_latch(1) [OF assms(1) Cons.prems, of w] h by simp
    moreover have "\<forall>g. update gyro' = Some g \<longrightarrow> g \<in> S"
      using handler_sets_latch(2) [OF assms(1) Cons.prems, of w] h by simp
    ultimately show ?thesis
      using Cons.IH [of gyro' w'] OnEdge h by simp
  next
    case Consume
    let ?g = "gyro\<lparr>dataReady := False\<rparr>"
    have inv: "\<forall>f. update ?g = Some f \<longrightarrow> f \<in> S"
      using Cons.prems by simp
    have idle: "latch_of ?g = Idle" by (simp add: latch_of_def)
    show ?thesis
      using Cons.IH [OF inv, of w] Consume idle
      by (auto simp: consume_latch latch_spec_consume split: prod.splits)
  qed
qed

text \<open>A device with no callback: a poll before any edge, two edges before one poll, two
  polls after one edge. And a device with the storing callback installed, on a platform
  whose other routine, never installed, would clear the latch.\<close>

theorem latch_once_per_edge_witness:
  "fst (run_latch (sim_platform True regs_mpu6050 cb_drain) [] gyro0
          [Consume, OnEdge, OnEdge, Consume, Consume, OnEdge, Consume])
     = [False, True, False, True]
 \<and> latch_of (snd (run_latch (sim_platform True regs_mpu6050 cb_drain) [] gyro0
          [Consume, OnEdge, OnEdge, Consume, Consume, OnEdge, Consume])) = Idle
 \<and> updateFn sim_two_callbacks [] 1 (gyro0\<lparr>dataReady := True\<rparr>) = gyro0
 \<and> fst (run_latch sim_two_callbacks [] (mpuGyroSetIsrUpdate gyro0 (Some 0))
          [OnEdge, Consume, Consume, OnEdge, OnEdge, Consume]) = [True, False, True]"
proof -
  have none: "keeps_latch (sim_platform True regs_mpu6050 cb_drain) {}"
    by (simp add: keeps_latch_def)
  have two: "keeps_latch sim_two_callbacks {0}"
    by (simp add: keeps_latch_def sim_two_callbacks_def cb_store_def)
  have "fst (run_latch (sim_platform True regs_mpu6050 cb_drain) [] gyro0
          [Consume, OnEdge, OnEdge, Consume, Consume, OnEdge, Consume])
     = [False, True, False, True]
   \<and> latch_of (snd (run_latch (sim_platform True regs_mpu6050 cb_drain) [] gyro0
          [Consume, OnEdge, OnEdge, Consume, Consume, OnEdge, Consume])) = Idle"
    using latch_once_per_edge [OF none, of gyro0 "[]"
          "[Consume, OnEdge, OnEdge, Consume, Consume, OnEdge, Consume]"]
    by (simp add: gyro0_def latch_of_def)
  moreover have "fst (run_latch sim_two_callbacks [] (mpuGyroSetIsrUpdate gyro0 (Some 0))
          [OnEdge, Consume, Consume, OnEdge, OnEdge, Consume]) = [True, False, True]"
    using latch_once_per_edge [OF two, of "mpuGyroSetIsrUpdate gyro0 (Some 0)" "[]"
          "[OnEdge, Consume, Consume, OnEdge, OnEdge, Consume]"]
    by (simp add: gyro0_def latch_of_def mpuGyroSetIsrUpdate_def)
  moreover have "updateFn sim_two_callbacks [] 1 (gyro0\<lparr>dataReady := True\<rparr>) = gyro0"
    by (simp add: sim_two_callbacks_def cb_drain_def gyro0_def)
  ultimately show ?thesis by simp
qed

section \<open>Sample reads\<close>

text \<open>
  C6. For every gyroscope read and for every accelerometer read whose burst read is not
  acknowledged, \<^verbatim>\<open>mpuGyroRead\<close>, respectively \<^verbatim>\<open>mpuAccRead\<close>, returns false and leaves
  the device, and with it the stored 3-axis raw sample buffer, exactly as it was,
  whatever the read left in the local buffer.
\<close>

theorem failed_read_keeps_samples:
  "(readFn (mpuConfiguration gyro) = Some rf
      \<and> call_readFn P w rf (gyroReadXRegister (mpuConfiguration gyro)) 6 = (w1, False, data)
    \<longrightarrow> mpuGyroRead P w gyro = Inr (w1, gyro, False))
 \<and> (readFn (acc_mpuConfiguration acc) = Some rf'
      \<and> call_readFn P' w' rf' (MPU_RA_ACCEL_XOUT_H P') 6 = (w1', False, data')
    \<longrightarrow> mpuAccRead P' w' acc = Inr (w1', acc, False))"
  by (simp add: mpuGyroRead_def mpuAccRead_def)

text \<open>Devices with samples stored, on a bus that does not acknowledge but fills the
  buffer with \<open>FF FE 01 02 80 00\<close>: the stored samples stay.\<close>

theorem failed_read_keeps_samples_witness:
  "regs_mpu6050 0x43 0 = 0xFF
 \<and> mpuGyroRead (sim_platform False regs_mpu6050 id) [] gyro_sampled =
     Inr ([I2C_READ 0 0x68 0x43 6], gyro_sampled, False)
 \<and> gyroADCRaw gyro_sampled X = 0x1234 \<and> gyroADCRaw gyro_sampled Y = 0xFFFB
 \<and> gyroADCRaw gyro_sampled Z = 7
 \<and> mpuAccRead (sim_platform False regs_mpu6050 id) [] acc_sampled =
     Inr ([I2C_READ 0 0x68 0x3B 6], acc_sampled, False)
 \<and> ADCRaw acc_sampled X = 0x0102 \<and> ADCRaw acc_sampled Y = 0x8000
 \<and> ADCRaw acc_sampled Z = 0xFFFF"
proof -
  have g: "readFn (mpuConfiguration gyro_sampled) = Some Fn_mpuReadRegisterI2C
      \<and> call_readFn (sim_platform False regs_mpu6050 id) [] Fn_mpuReadRegisterI2C
          (gyroReadXRegister (mpuConfiguration gyro_sampled)) 6 =
          ([I2C_READ 0 0x68 0x43 6], False, regs_mpu6050 0x43)"
    by (simp add: gyro_sampled_def sim_platform_simps mpuReadRegisterI2C_def MPU_ADDRESS_def)
  have a: "readFn (acc_mpuConfiguration acc_sampled) = Some Fn_mpuReadRegisterI2C
      \<and> call_readFn (sim_platform False regs_mpu6050 id) [] Fn_mpuReadRegisterI2C
          (MPU_RA_ACCEL_XOUT_H (sim_platform False regs_mpu6050 id)) 6 =
          ([I2C_READ 0 0x68 0x3B 6], False, regs_mpu6050 0x3B)"
    by (simp add: acc_sampled_def sim_platform_simps mpuReadRegisterI2C_def MPU_ADDRESS_def)
  have "mpuGyroRead (sim_platform False regs_mpu6050 id) [] gyro_sampled =
          Inr ([I2C_READ 0 0x68 0x43 6], gyro_sampled, False)"
    using failed_read_keeps_samples [THEN conjunct1, rule_format, OF g] .
  moreover have "mpuAccRead (sim_platform False regs_mpu6050 id) [] acc_sampled =
          Inr ([I2C_READ 0 0x68 0x3B 6], acc_sampled, False)"
    using failed_read_keeps_samples [THEN conjunct2, rule_format, OF a] .
  ultimately show ?thesis
    by (simp add: gyro_sampled_def acc_sampled_def regs_mpu6050_def)
qed

text \<open>An acknowledged read, function by function: the one read logged, the decoded
  buffer stored, true returned.\<close>

lemma mpuGyroRead_acked:
  assumes "readFn (mpuConfiguration gyro) = Some rf"
      and "call_readFn P w rf (gyroReadXRegister (mpuConfiguration gyro)) 6 = (w1, True, data)"
  shows "mpuGyroRead P w gyro =
           Inr (w @ [read_event P rf (gyroReadXRegister (mpuConfiguration gyro)) 6],
                gyro\<lparr>gyroADCRaw := decode_xyz data (gyroADCRaw gyro)\<rparr>, True)"
proof -
  have "w1 = w @ [read_event P rf (gyroReadXRegister (mpuConfiguration gyro)) 6]"
    using assms(2) call_readFn_log [of P w rf "gyroReadXRegister (mpuConfiguration gyro)" 6]
    by simp
  then show ?thesis using assms by (simp add: mpuGyroRead_def)
qed

lemma mpuAccRead_acked:
  assumes "readFn (acc_mpuConfiguration acc) = Some rf"
      and "call_readFn P w rf (MPU_RA_ACCEL_XOUT_H P) 6 = (w1, True, data)"
  shows "mpuAccRead P w acc =
           Inr (w @ [read_event P rf (MPU_RA_ACCEL_XOUT_H P) 6],
                acc\<lparr>ADCRaw := decode_xyz data (ADCRaw acc)\<rparr>, True)"
proof -
  have "w1 = w @ [read_event P rf (MPU_RA_ACCEL_XOUT_H P) 6]"
    using assms(2) call_readFn_log [of P w rf "MPU_RA_ACCEL_XOUT_H P" 6] by simp
  then show ?thesis using assms by (simp add: mpuAccRead_def)
qed

text \<open>
  C7. For every acknowledged 6-byte burst, \<^verbatim>\<open>mpuGyroRead\<close> reads at the gyroscope
  register configured in the dispatch table and \<^verbatim>\<open>mpuAccRead\<close> at the fixed
  accelerometer X-high register (one read each, of 6 bytes); each stores the buffer as
  three signed 16-bit big-endian values, X from bytes 0 and 1, Y from bytes 2 and 3, Z
  from bytes 4 and 5, changes nothing else of the device, and returns true. The two
  functions are independent: each half holds for its own read alone.
\<close>

theorem acked_read_decodes_big_endian:
  "(readFn (mpuConfiguration gyro) = Some rf
      \<and> call_readFn P w rf (gyroReadXRegister (mpuConfiguration gyro)) 6 = (w1, True, data)
    \<longrightarrow> (\<exists>raw. mpuGyroRead P w gyro =
            Inr (w @ [read_event P rf (gyroReadXRegister (mpuConfiguration gyro)) 6],
                 gyro\<lparr>gyroADCRaw := raw\<rparr>, True)
          \<and> sint (raw X) = be_s16 (data 0) (data 1)
          \<and> sint (raw Y) = be_s16 (data 2) (data 3)
          \<and> sint (raw Z) = be_s16 (data 4) (data 5)))
 \<and> (readFn (acc_mpuConfiguration acc) = Some rf'
      \<and> call_readFn P' w' rf' (MPU_RA_ACCEL_XOUT_H P') 6 = (w1', True, data')
    \<longrightarrow> (\<exists>raw. mpuAccRead P' w' acc =
            Inr (w' @ [read_event P' rf' (MPU_RA_ACCEL_XOUT_H P') 6],
                 acc\<lparr>ADCRaw := raw\<rparr>, True)
          \<and> sint (raw X) = be_s16 (data' 0) (data' 1)
          \<and> sint (raw Y) = be_s16 (data' 2) (data' 3)
          \<and> sint (raw Z) = be_s16 (data' 4) (data' 5)))"
  using mpuGyroRead_acked [of gyro rf P w w1 data] mpuAccRead_acked [of acc rf' P' w' w1' data']
        decode_xyz_axes
  by blast

text \<open>The burst \<open>FF FE 01 02 80 00\<close> is X = -2, Y = 258, Z = -32768, on devices that
  had other samples stored; the gyroscope's other fields stay.\<close>

theorem acked_read_decodes_big_endian_witness:
  "(\<exists>g. mpuGyroRead (sim_platform True regs_mpu6050 id) [] gyro_sampled =
          Inr ([I2C_READ 0 0x68 0x43 6], g, True)
        \<and> sint (gyroADCRaw g X) = - 2 \<and> sint (gyroADCRaw g Y) = 258
        \<and> sint (gyroADCRaw g Z) = - 32768
        \<and> sensor (mpuDetectionResult g) = MPU_60x0)
 \<and> (\<exists>a. mpuAccRead (sim_platform True regs_mpu6050 id) [] acc_sampled =
          Inr ([I2C_READ 0 0x68 0x3B 6], a, True)
        \<and> sint (ADCRaw a X) = - 2 \<and> sint (ADCRaw a Y) = 258 \<and> sint (ADCRaw a Z) = - 32768)"
proof -
  have g: "readFn (mpuConfiguration gyro_sampled) = Some Fn_mpuReadRegisterI2C
      \<and> call_readFn (sim_platform True regs_mpu6050 id) [] Fn_mpuReadRegisterI2C
          (gyroReadXRegister (mpuConfiguration gyro_sampled)) 6 =
          ([I2C_READ 0 0x68 0x43 6], True, regs_mpu6050 0x43)"
    by (simp add: gyro_sampled_def sim_platform_simps mpuReadRegisterI2C_def MPU_ADDRESS_def)
  have a: "readFn (acc_mpuConfiguration acc_sampled) = Some Fn_mpuReadRegisterI2C
      \<and> call_readFn (sim_platform True regs_mpu6050 id) [] Fn_mpuReadRegisterI2C
          (MPU_RA_ACCEL_XOUT_H (sim_platform True regs_mpu6050 id)) 6 =
          ([I2C_READ 0 0x68 0x3B 6], True, regs_mpu6050 0x3B)"
    by (simp add: acc_sampled_def sim_platform_simps mpuReadRegisterI2C_def MPU_ADDRESS_def)
  have vals:
    "be_s16 (regs_mpu6050 0x43 0) (regs_mpu6050 0x43 1) = - 2"
    "be_s16 (regs_mpu6050 0x43 2) (regs_mpu6050 0x43 3) = 258"
    "be_s16 (regs_mpu6050 0x43 4) (regs_mpu6050 0x43 5) = - 32768"
    "be_s16 (regs_mpu6050 0x3B 0) (regs_mpu6050 0x3B 1) = - 2"
    "be_s16 (regs_mpu6050 0x3B 2) (regs_mpu6050 0x3B 3) = 258"
    "be_s16 (regs_mpu6050 0x3B 4) (regs_mpu6050 0x3B 5) = - 32768"
    by (simp_all add: be_s16_def regs_mpu6050_def)
  have ev:
    "read_event (sim_platform True regs_mpu6050 id) Fn_mpuReadRegisterI2C
       (gyroReadXRegister (mpuConfiguration gyro_sampled)) 6 = I2C_READ 0 0x68 0x43 6"
    "read_event (sim_platform True regs_mpu6050 id) Fn_mpuReadRegisterI2C
       (MPU_RA_ACCEL_XOUT_H (sim_platform True regs_mpu6050 id)) 6 = I2C_READ 0 0x68 0x3B 6"
    by (simp_all add: gyro_sampled_def sim_platform_simps MPU_ADDRESS_def)
  have s: "\<And>raw. sensor (mpuDetectionResult (gyro_sampled\<lparr>gyroADCRaw := raw\<rparr>)) = MPU_60x0"
    by (simp add: gyro_sampled_def)
  show ?thesis
    using acked_read_decodes_big_endian [THEN conjunct1, rule_format, OF g]
          acked_read_decodes_big_endian [THEN conjunct2, rule_format, OF a] s
    unfolding vals ev
    by fastforce
qed

section \<open>What the interrupt touches\<close>

text \<open>
  C8, as stated: every invocation of the interrupt service routine leaves the dispatch
  table, the variant, the resolution and the sample buffers unchanged. The routine
  itself writes the latch only, but it passes the device to the update callback, and
  what the callback writes is written in interrupt context: with a callback that
  stores a sample, the X sample is 0 before the interrupt and 1 after it.
\<close>

theorem cb_store_changes_samples:
  "update (mpuGyroSetIsrUpdate gyro0 (Some 0)) = Some 0
 \<and> gyroADCRaw (mpuGyroSetIsrUpdate gyro0 (Some 0)) X = 0
 \<and> gyroADCRaw (snd (mpuIntExtiHandler (sim_platform True regs_mpu6050 cb_store) []
                        (mpuGyroSetIsrUpdate gyro0 (Some 0)))) X = 1"
  by (simp add: mpuIntExtiHandler_def mpuGyroSetIsrUpdate_def cb_store_def sim_platform_simps
      gyro0_def)

text \<open>
  C8, amended: the interrupt service routine's own only write is the data-ready latch.
  With no update callback installed the device after the interrupt is the device
  before it with the latch set, every other field as it was, and nothing is called;
  with a callback installed the routine calls it once, and the device after the
  interrupt is what the callback makes of the device with the latch set. So the
  dispatch table, the variant, the resolution and the sample buffer are unchanged
  whenever no callback is installed or the installed callback leaves them unchanged.
\<close>

theorem handler_frame:
  "(update gyro = None \<longrightarrow>
      (\<exists>gyro'. mpuIntExtiHandler P w gyro = (w, gyro')
         \<and> dataReady gyro' \<and> update gyro' = None
         \<and> mpuConfiguration gyro' = mpuConfiguration gyro
         \<and> mpuDetectionResult gyro' = mpuDetectionResult gyro
         \<and> gyroADCRaw gyro' = gyroADCRaw gyro))
 \<and> (\<forall>f. update gyro = Some f \<longrightarrow>
      (\<exists>gyro1. mpuIntExtiHandler P w gyro = (w @ [UPDATE_CALL f], updateFn P w f gyro1)
         \<and> dataReady gyro1 \<and> update gyro1 = Some f
         \<and> mpuConfiguration gyro1 = mpuConfiguration gyro
         \<and> mpuDetectionResult gyro1 = mpuDetectionResult gyro
         \<and> gyroADCRaw gyro1 = gyroADCRaw gyro))
 \<and> ((\<forall>f. update gyro = Some f \<longrightarrow>
        frame (updateFn P w f (gyro\<lparr>dataReady := True\<rparr>)) = frame gyro)
    \<longrightarrow> frame (snd (mpuIntExtiHandler P w gyro)) = frame gyro)"
proof (cases "update gyro")
  case None
  then show ?thesis by (simp add: mpuIntExtiHandler_def frame_def)
next
  case (Some f)
  let ?d = "gyro\<lparr>dataReady := True\<rparr>"
  have run: "mpuIntExtiHandler P w gyro = (w @ [UPDATE_CALL f], updateFn P w f ?d)"
    using Some by (simp add: mpuIntExtiHandler_def)
  have "dataReady ?d \<and> update ?d = Some f
      \<and> mpuConfiguration ?d = mpuConfiguration gyro
      \<and> mpuDetectionResult ?d = mpuDetectionResult gyro
      \<and> gyroADCRaw ?d = gyroADCRaw gyro"
    using Some by simp
  with run have "\<exists>gyro1. mpuIntExtiHandler P w gyro = (w @ [UPDATE_CALL f], updateFn P w f gyro1)
         \<and> dataReady gyro1 \<and> update gyro1 = Some f
         \<and> mpuConfiguration gyro1 = mpuConfiguration gyro
         \<and> mpuDetectionResult gyro1 = mpuDetectionResult gyro
         \<and> gyroADCRaw gyro1 = gyroADCRaw gyro"
    by blast
  with Some run show ?thesis by simp
qed

text \<open>A device in operation with no callback; the same device with the storing callback,
  whose write shows after the interrupt; and with the draining callback, which leaves
  the frame alone.\<close>

theorem handler_frame_witness:
  "(\<exists>g. mpuIntExtiHandler (sim_platform True regs_mpu6050 cb_store) [] gyro_sampled = ([], g)
       \<and> dataReady g \<and> \<not> dataReady gyro_sampled
       \<and> gyroADCRaw g X = 0x1234 \<and> sensor (mpuDetectionResult g) = MPU_60x0
       \<and> gyroReadXRegister (mpuConfiguration g) = 0x43)
 \<and> mpuIntExtiHandler (sim_platform True regs_mpu6050 cb_store) []
       (mpuGyroSetIsrUpdate gyro_sampled (Some 0)) =
     ([UPDATE_CALL 0], cb_store ((mpuGyroSetIsrUpdate gyro_sampled (Some 0))\<lparr>dataReady := True\<rparr>))
 \<and> frame (snd (mpuIntExtiHandler (sim_platform True regs_mpu6050 cb_drain) []
              (mpuGyroSetIsrUpdate gyro_sampled (Some 0)))) = frame gyro_sampled"
proof -
  let ?P = "sim_platform True regs_mpu6050 cb_store"
  let ?g = "mpuGyroSetIsrUpdate gyro_sampled (Some 0)"
  have "\<exists>g. mpuIntExtiHandler ?P [] gyro_sampled = ([], g)
       \<and> dataReady g \<and> \<not> dataReady gyro_sampled
       \<and> gyroADCRaw g X = 0x1234 \<and> sensor (mpuDetectionResult g) = MPU_60x0
       \<and> gyroReadXRegister (mpuConfiguration g) = 0x43"
    using handler_frame [of gyro_sampled ?P "[]", THEN conjunct1]
    by (auto simp add: gyro_sampled_def)
  moreover have "mpuIntExtiHandler ?P [] ?g =
      ([UPDATE_CALL 0], cb_store (?g\<lparr>dataReady := True\<rparr>))"
  proof -
    from handler_frame [of ?g ?P "[]", THEN conjunct2, THEN conjunct1]
    obtain gyro1 where r: "mpuIntExtiHandler ?P [] ?g = ([] @ [UPDATE_CALL 0], updateFn ?P [] 0 gyro1)"
      by (auto simp add: mpuGyroSetIsrUpdate_def)
    have "mpuIntExtiHandler ?P [] ?g = ([UPDATE_CALL 0], updateFn ?P [] 0 (?g\<lparr>dataReady := True\<rparr>))"
      by (simp add: mpuIntExtiHandler_def mpuGyroSetIsrUpdate_def)
    with r show ?thesis by (simp add: sim_platform_simps)
  qed
  moreover have "frame (snd (mpuIntExtiHandler (sim_platform True regs_mpu6050 cb_drain) [] ?g)) =
      frame gyro_sampled"
    using handler_frame [of ?g "sim_platform True regs_mpu6050 cb_drain" "[]",
            THEN conjunct2, THEN conjunct2]
    by (simp add: mpuGyroSetIsrUpdate_def sim_platform_simps cb_drain_def frame_def)
  ultimately show ?thesis by simp
qed

section \<open>Acknowledgements that are not looked at\<close>

text \<open>
  C9. \<^verbatim>\<open>mpu6050FindRevision\<close> ignores the acknowledgement of both the 6-byte revision
  burst and the product-identifier read: whatever the reads answer as acknowledgement,
  the run ends the same way, decided by the buffer contents alone; its result carries
  no acknowledgement, so a transport failure there never reaches the caller.
\<close>

theorem mpu6050FindRevision_ignores_ack:
  "mpu6050FindRevision (override_acks a P) w gyro = mpu6050FindRevision P w gyro"
  unfolding mpu6050FindRevision_def
  by (simp add: call_readFn_override override_regs split: option.splits prod.splits)

theorem mpu6050FindRevision_ignores_ack_witness:
  "mpu6050FindRevision (override_acks (\<lambda>h. False) (sim_platform True regs_mpu6050 id)) []
     gyro_i2c =
     Inr ([I2C_READ 0 0x68 0x06 6], set_resolution MPU_FULL_RESOLUTION gyro_i2c)
 \<and> mpu6050FindRevision (sim_platform True regs_mpu6050 id) [] gyro_i2c =
     Inr ([I2C_READ 0 0x68 0x06 6], set_resolution MPU_FULL_RESOLUTION gyro_i2c)"
  using mpu6050FindRevision_ignores_ack [of "\<lambda>h. False" "sim_platform True regs_mpu6050 id"
          "[]" gyro_i2c]
  by (simp add: sim_defs regs_defs mpu6050FindRevision_def revision_of_simps revision_code_def)

section \<open>An identity of no known family\<close>

text \<open>
  C10, as stated: when the primary transport acknowledges the identity probe but the
  masked identity byte matches neither the legacy pattern, the six-axis constant, nor
  the extended-family constant, detection leaves the variant at its Unknown sentinel
  and installs the default gyroscope burst register. The condition is on the identity
  byte alone, and an MPU3050 meets it: its identity byte is 0, which masked is neither
  \<open>0x68\<close> (the legacy pattern and the six-axis constant) nor \<open>0x70\<close>; but its legacy
  identity register answers with the legacy pattern, so detection sets the legacy
  variant and the legacy gyroscope register.
\<close>

theorem mpu3050_identity_zero_is_legacy:
  "regs_mpu3050_real 0x75 0 AND 0x7E \<noteq> 0x68
 \<and> regs_mpu3050_real 0x75 0 AND 0x7E \<noteq> 0x70
 \<and> sensor (mpuDetectionResult gyro0) = MPU_NONE
 \<and> sensor (mpuDetectionResult
      (snd (final_state (mpuDetect (sim_platform True regs_mpu3050_real id) [] gyro0)))) = MPU_3050
 \<and> gyroReadXRegister (mpuConfiguration
      (snd (final_state (mpuDetect (sim_platform True regs_mpu3050_real id) [] gyro0)))) = 0x1D
 \<and> MPU_RA_GYRO_XOUT_H (sim_platform True regs_mpu3050_real id) = 0x43"
proof -
  let ?P = "sim_platform True regs_mpu3050_real id"
  have "mpuDetect ?P [] gyro0 =
          Inr ([DELAY 35, I2C_READ 0 0x68 0x75 1, I2C_READ 0 0x68 0x00 1],
               (set_sensor MPU_3050 (with_i2c_dispatch ?P gyro0))\<lparr>mpuConfiguration :=
                  (mpuConfiguration (with_i2c_dispatch ?P gyro0))
                    \<lparr>gyroReadXRegister := MPU3050_GYRO_OUT ?P\<rparr>\<rparr>)"
    using mpuDetect_acked [where P = ?P and w = "[]"
          and ?w1.0 = "[DELAY 35, I2C_READ 0 0x68 0x75 1]" and sig = "regs_mpu3050_real 0x75"
          and ?w2.0 = "[DELAY 35, I2C_READ 0 0x68 0x75 1, I2C_READ 0 0x68 0x00 1]"
          and ?ack2.0 = True and inquiry = "regs_mpu3050_real 0x00" and gyro = gyro0]
    by (simp add: sim_platform_simps mpuReadRegisterI2C_def MPU_ADDRESS_def regs_defs)
  then show ?thesis
    by (simp add: sim_platform_simps regs_defs set_sensor_def with_i2c_dispatch_def gyro0_def)
qed

text \<open>
  C10, amended: when the primary transport acknowledges the identity probe, the read
  of the legacy identity register does not find the legacy pattern (it is not
  acknowledged, or masked it is not the pattern), and the masked identity byte is
  neither the six-axis constant nor the extended-family constant, detection leaves the
  variant and the resolution as they were, the variant at its Unknown sentinel, and
  still installs the primary transport's read and write routines and the default
  gyroscope burst register.
\<close>

theorem mpuDetect_unrecognised_keeps_dispatch:
  assumes "USE_I2C P"
      and "mpuReadRegisterI2C P (w @ [DELAY 35]) (MPU_RA_WHO_AM_I P) 1 = (w1, True, sig)"
      and "mpuReadRegisterI2C P w1 (MPU_RA_WHO_AM_I_LEGACY P) 1 = (w2, ack2, inquiry)"
      and "\<not> (ack2 \<and> inquiry 0 AND 0x7E = 0x68)"
      and "sig 0 AND 0x7E \<noteq> 0x68"
      and "sig 0 AND 0x7E \<noteq> 0x70"
  shows "\<exists>gyro'. mpuDetect P w gyro = Inr (w2, gyro')
          \<and> sensor (mpuDetectionResult gyro') = sensor (mpuDetectionResult gyro)
          \<and> resolution (mpuDetectionResult gyro') = resolution (mpuDetectionResult gyro)
          \<and> readFn (mpuConfiguration gyro') = Some Fn_mpuReadRegisterI2C
          \<and> writeFn (mpuConfiguration gyro') = Some Fn_mpuWriteRegisterI2C
          \<and> gyroReadXRegister (mpuConfiguration gyro') = MPU_RA_GYRO_XOUT_H P"
  using mpuDetect_acked [OF assms(1-3), of gyro] assms(4-6)
  by (simp add: with_i2c_dispatch_def)

theorem mpuDetect_unrecognised_keeps_dispatch_witness:
  "\<exists>gyro'. mpuDetect (sim_platform True regs_unknown id) [] gyro0 =
        Inr ([DELAY 35, I2C_READ 0 0x68 0x75 1, I2C_READ 0 0x68 0x00 1], gyro')
      \<and> sensor (mpuDetectionResult gyro') = MPU_NONE
      \<and> readFn (mpuConfiguration gyro') = Some Fn_mpuReadRegisterI2C
      \<and> writeFn (mpuConfiguration gyro') = Some Fn_mpuWriteRegisterI2C
      \<and> gyroReadXRegister (mpuConfiguration gyro') = 0x43"
  using mpuDetect_unrecognised_keeps_dispatch [where P = "sim_platform True regs_unknown id"
          and w = "[]" and ?w1.0 = "[DELAY 35, I2C_READ 0 0x68 0x75 1]"
          and sig = "regs_unknown 0x75"
          and ?w2.0 = "[DELAY 35, I2C_READ 0 0x68 0x75 1, I2C_READ 0 0x68 0x00 1]"
          and ?ack2.0 = True and inquiry = "regs_unknown 0x00" and gyro = gyro0]
  by (auto simp add: sim_defs regs_defs)

end
